theory Spec2Isabelle
  imports Complex_Main
begin

section \<open>Data model\<close>

text \<open>
  The trace view's data as the TypeScript has it. A JavaScript \<open>number\<close> is modelled as an
  exact rational (\<^typ>\<open>rat\<close>), so \<open>Math.floor\<close> is \<^const>\<open>floor\<close>; the rounding of IEEE
  doubles is outside the model. A JavaScript string is a \<^typ>\<open>string\<close>; an optional property
  (\<open>name?: T\<close>) is an \<^typ>\<open>'a option\<close> with \<^const>\<open>None\<close> for \<open>undefined\<close>.
\<close>

record trace_key_value_pair =
  kv_key :: string
  kv_value :: string

record trace_process =
  serviceName :: string
  process_tags :: "trace_key_value_pair list"

text \<open>
  A span and the references between spans. Times are in microseconds. The source guards
  the two reference lists with a truthiness test, so they are optional here.
\<close>

datatype trace_span = TraceSpan
  (spanID: string)
  (traceID: string)
  (operationName: string)
  (startTime: rat)
  (duration: rat)
  (tags: "trace_key_value_pair list")
  (process: trace_process)
  (references: "trace_span_reference list option")
  (subsidiarilyReferencedBy: "trace_span_reference list option")
  (dataFrameRowIndex: "nat option")
and trace_span_reference = TraceSpanReference
  (refType: string)
  (ref_span: "trace_span option")
  (ref_spanID: string)
  (ref_traceID: string)

record time_shift =
  startMs :: rat
  endMs :: rat

text \<open>
  \<open>dateTime(n)\<close> wraps a count of milliseconds since the epoch; the model keeps the count.
  The \<open>raw\<close> member of the source's \<open>TimeRange\<close> holds the same two values again.
\<close>

record raw_time_range =
  raw_from :: int
  raw_to :: int

record time_range =
  range_from :: int
  range_to :: int
  raw :: raw_time_range

section \<open>The time window of a span\<close>

text \<open>The value of the parameter \<open>timeShift\<close> when the caller passes none.\<close>

definition default_timeShift :: time_shift where
  "default_timeShift = \<lparr>startMs = 0, endMs = 0\<rparr>"

text \<open>
  \<open>getTimeRangeFromSpan(span, timeShift, isSplunkDS)\<close>. The mutable \<open>adjustedEndTime\<close> is
  the \<open>let\<close>-bound value of the \<open>if\<close> chain.
\<close>

definition getTimeRangeFromSpan :: "trace_span \<Rightarrow> time_shift \<Rightarrow> bool \<Rightarrow> time_range" where
  "getTimeRangeFromSpan sp timeShift isSplunkDS =
     (let adjustedStartTime = \<lfloor>startTime sp / 1000 + startMs timeShift\<rfloor>;
          fromDt = adjustedStartTime;
          spanEndMs = (startTime sp + duration sp) / 1000;
          adjustedEndTime0 = \<lfloor>spanEndMs + endMs timeShift\<rfloor>;
          adjustedEndTime =
            (if isSplunkDS \<and> adjustedEndTime0 - adjustedStartTime < 1000
             then adjustedStartTime + 1000
             else if adjustedStartTime = adjustedEndTime0
             then adjustedEndTime0 + 1
             else adjustedEndTime0);
          toDt = adjustedEndTime
      in \<lparr>range_from = fromDt, range_to = toDt, raw = \<lparr>raw_from = fromDt, raw_to = toDt\<rparr>\<rparr>)"

section \<open>JavaScript helpers\<close>

text \<open>
  \<open>Array.prototype.join\<close>, \<open>String.prototype.indexOf\<close> (the index of the first occurrence,
  \<open>-1\<close> when there is none) and \<open>a || b\<close> on an optional array (an array, also an empty
  one, is truthy, so only \<open>undefined\<close> gives \<open>b\<close>). A string is truthy when it is not empty,
  an optional boolean when it is \<open>true\<close>.
\<close>

fun join :: "string \<Rightarrow> string list \<Rightarrow> string" where
  "join sep [] = []"
| "join sep [x] = x"
| "join sep (x # y # ys) = x @ sep @ join sep (y # ys)"

fun indexOf_from :: "int \<Rightarrow> string \<Rightarrow> string \<Rightarrow> int" where
  "indexOf_from i [] pat = (if pat = [] then i else - 1)"
| "indexOf_from i (c # cs) pat =
     (if take (length pat) (c # cs) = pat then i else indexOf_from (i + 1) cs pat)"

definition indexOf :: "string \<Rightarrow> string \<Rightarrow> int" where
  "indexOf s pat = indexOf_from 0 s pat"

definition or_else :: "'a option \<Rightarrow> 'a \<Rightarrow> 'a" where
  "or_else a b = (case a of Some x \<Rightarrow> x | None \<Rightarrow> b)"

definition truthy_string :: "string \<Rightarrow> bool" where
  "truthy_string s \<longleftrightarrow> s \<noteq> []"

definition truthy_flag :: "bool option \<Rightarrow> bool" where
  "truthy_flag b \<longleftrightarrow> b = Some True"

text \<open>\<open>.filter((v) => Boolean(v))\<close> on an array of strings and \<open>undefined\<close>.\<close>

fun filter_Boolean :: "string option list \<Rightarrow> string list" where
  "filter_Boolean [] = []"
| "filter_Boolean (None # vs) = filter_Boolean vs"
| "filter_Boolean (Some v # vs) = (if truthy_string v then v # filter_Boolean vs else filter_Boolean vs)"

section \<open>Trace to logs: options, tags and the query builders\<close>

text \<open>An entry of a tag mapping (\<open>KeyValue<string>\<close>): the tag's key and the label to use for it.\<close>

record key_value =
  map_key :: string
  map_value :: "string option"

text \<open>\<open>TraceToLogsOptionsV2\<close>.\<close>

record trace_to_logs_options =
  logs_datasourceUid :: "string option"
  logs_tags :: "key_value list option"
  logs_spanStartTimeShift :: "string option"
  logs_spanEndTimeShift :: "string option"
  filterByTraceID :: "bool option"
  filterBySpanID :: "bool option"
  logs_query :: "string option"
  customQuery :: bool

text \<open>
  The query objects the builders return: \<open>{ refId }\<close>, a \<open>LokiQuery\<close> \<open>{ expr, refId }\<close>, the
  Elasticsearch/OpenSearch query \<open>{ query, refId, metrics }\<close> with its list of \<open>(id, type)\<close>
  pairs, the Splunk query \<open>{ query, refId }\<close>, and the Prometheus query of the metrics links.
  With \<open>customQuery\<close> the data link carries the optional string \<open>options.query\<close> instead.
\<close>

datatype data_query =
    RefIdQuery string
  | LokiQuery string string
  | ElasticsearchOrOpensearchQuery string string "(string \<times> string) list"
  | SplunkQuery string string
  | PromQuery string string
  | CustomQueryText "string option"

text \<open>The text of a query object: \<open>expr\<close> or \<open>query\<close>.\<close>

fun query_text :: "data_query \<Rightarrow> string" where
  "query_text (RefIdQuery r) = []"
| "query_text (LokiQuery e r) = e"
| "query_text (ElasticsearchOrOpensearchQuery q r m) = q"
| "query_text (SplunkQuery q r) = q"
| "query_text (PromQuery e r) = e"
| "query_text (CustomQueryText q) = or_else q []"

record query_data =
  qd_query :: data_query
  qd_tags :: string

definition defaultKeys :: "key_value list" where
  "defaultKeys = map (\<lambda>k. \<lparr>map_key = k, map_value = None\<rparr>)
     [''cluster'', ''hostname'', ''namespace'', ''pod'']"

text \<open>
  \<open>getTags(span, tags, { labelValueSign })\<close>: for each process tag, then each span tag, the
  first mapping entry with the tag's key gives \<open>label<sign>"value"\<close>; a tag with no entry
  gives \<open>undefined\<close> and is filtered out.
\<close>

definition getTags :: "trace_span \<Rightarrow> key_value list \<Rightarrow> string \<Rightarrow> string list" where
  \<open>getTags sp tagMapping labelValueSign =
     filter_Boolean
       (map (\<lambda>tag.
               (case find (\<lambda>keyValue. map_key keyValue = kv_key tag) tagMapping of
                  Some keyValue \<Rightarrow>
                    Some ((if truthy_string (or_else (map_value keyValue) [])
                           then or_else (map_value keyValue) [] else map_key keyValue)
                          @ labelValueSign @ ''"'' @ kv_value tag @ ''"'')
                | None \<Rightarrow> None))
            (process_tags (process sp) @ tags sp))\<close>

definition getQueryForLoki :: "trace_span \<Rightarrow> trace_to_logs_options \<Rightarrow> query_data" where
  \<open>getQueryForLoki sp options =
     (let tagsStr = join '', '' (getTags sp (or_else (logs_tags options) defaultKeys) ''='')
      in if \<not> truthy_string tagsStr
         then \<lparr>qd_query = LokiQuery [] [], qd_tags = tagsStr\<rparr>
         else
           (let expr0 = ''{$__tags}'';
                expr1 = (if truthy_flag (filterByTraceID options) \<and> truthy_string (traceID sp)
                         then expr0 @ '' |="$__span.traceId"'' else expr0);
                expr2 = (if truthy_flag (filterBySpanID options) \<and> truthy_string (spanID sp)
                         then expr1 @ '' |="$__span.id"'' else expr1)
            in \<lparr>qd_query = LokiQuery expr2 [], qd_tags = tagsStr\<rparr>))\<close>

definition getQueryForElasticsearchOrOpensearch ::
    "trace_span \<Rightarrow> trace_to_logs_options \<Rightarrow> query_data" where
  \<open>getQueryForElasticsearchOrOpensearch sp options =
     (let tagsStr = join '' AND '' (getTags sp (or_else (logs_tags options) []) '':'');
          query0 = [];
          query1 = (if length tagsStr > 0 then query0 @ ''$__tags'' else query0);
          query2 = (if truthy_flag (filterByTraceID options) \<and> truthy_string (traceID sp)
                    then ''"$__span.traceId" AND '' @ query1 else query1);
          query3 = (if truthy_flag (filterBySpanID options) \<and> truthy_string (spanID sp)
                    then ''"$__span.id" AND '' @ query2 else query2)
      in \<lparr>qd_query = ElasticsearchOrOpensearchQuery query3 [] [(''1'', ''logs'')],
          qd_tags = tagsStr\<rparr>)\<close>

definition getQueryForSplunk :: "trace_span \<Rightarrow> trace_to_logs_options \<Rightarrow> query_data" where
  \<open>getQueryForSplunk sp options =
     (let tagsStr = join '' '' (getTags sp (or_else (logs_tags options) defaultKeys) ''='');
          query0 = [];
          query1 = (if truthy_string tagsStr then query0 @ ''$__tags'' else query0);
          query2 = (if truthy_flag (filterByTraceID options) \<and> truthy_string (traceID sp)
                    then query1 @ '' "$__span.traceId"'' else query1);
          query3 = (if truthy_flag (filterBySpanID options) \<and> truthy_string (spanID sp)
                    then query2 @ '' "$__span.id"'' else query2)
      in \<lparr>qd_query = SplunkQuery query3 [] , qd_tags = tagsStr\<rparr>)\<close>

section \<open>Trace to metrics: the metrics query\<close>

text \<open>
  \<open>String.prototype.replace\<close> with the global regular expression \<open>/\$__tags/g\<close>, which
  matches the literal text \<open>$__tags\<close> and has no capture group. In the replacement string
  JavaScript reads \<open>$$\<close> as a dollar sign, \<open>$&\<close> as the matched text, \<open>$`\<close> as the text before
  the match and \<open>$'\<close> as the text after it; any other \<open>$\<close> stands for itself.
\<close>

fun expand_replacement :: "string \<Rightarrow> string \<Rightarrow> string \<Rightarrow> string \<Rightarrow> string" where
  "expand_replacement [] matched preceding following = []"
| "expand_replacement [c] matched preceding following = [c]"
| "expand_replacement (c # d # r) matched preceding following =
     (if c = CHR ''$'' \<and> d = CHR ''$'' then CHR ''$'' # expand_replacement r matched preceding following
      else if c = CHR ''$'' \<and> d = CHR ''&'' then matched @ expand_replacement r matched preceding following
      else if c = CHR ''$'' \<and> d = CHR 0x60 then preceding @ expand_replacement r matched preceding following
      else if c = CHR ''$'' \<and> d = CHR 0x27 then following @ expand_replacement r matched preceding following
      else c # expand_replacement (d # r) matched preceding following)"

function replace_global_from :: "string \<Rightarrow> string \<Rightarrow> string \<Rightarrow> string \<Rightarrow> string" where
  "replace_global_from pat replacement preceding s =
     (if s = [] \<or> pat = [] then s
      else if take (length pat) s = pat
      then expand_replacement replacement pat preceding (drop (length pat) s)
             @ replace_global_from pat replacement (preceding @ pat) (drop (length pat) s)
      else hd s # replace_global_from pat replacement (preceding @ [hd s]) (tl s))"
  by pat_completeness auto
termination
  by (relation "measure (\<lambda>(pat, replacement, preceding, s). length s)") auto

declare replace_global_from.simps [simp del]

definition replace_global :: "string \<Rightarrow> string \<Rightarrow> string \<Rightarrow> string" where
  "replace_global s pat replacement = replace_global_from pat replacement [] s"

text \<open>\<open>TraceToMetricQuery\<close> and \<open>TraceToMetricsOptions\<close>.\<close>

record trace_to_metric_query =
  mq_name :: "string option"
  mq_query :: "string option"

record trace_to_metrics_options =
  metrics_datasourceUid :: "string option"
  metrics_tags :: "key_value list option"
  metrics_queries :: "trace_to_metric_query list option"
  metrics_spanStartTimeShift :: "string option"
  metrics_spanEndTimeShift :: "string option"

text \<open>
  The body of the \<open>reduce\<close> in \<open>buildMetricsQuery\<close>: a configured tag contributes a label
  when the first span tag with its key has a truthy value.
\<close>

definition metrics_label_step :: "trace_key_value_pair list \<Rightarrow> string list \<Rightarrow> key_value \<Rightarrow> string list" where
  \<open>metrics_label_step spanTags acc tag =
     (let tagValue = map_option kv_value (find (\<lambda>t. kv_key t = map_key tag) spanTags)
      in if truthy_string (or_else tagValue [])
         then acc @ [(if truthy_string (or_else (map_value tag) [])
                      then or_else (map_value tag) [] else map_key tag)
                     @ ''="'' @ or_else tagValue [] @ ''"'']
         else acc)\<close>

text \<open>
  \<open>buildMetricsQuery(query, tags = [], span)\<close>: the default query when \<open>query.query\<close> is
  falsy (undefined or empty); otherwise the template, with every \<open>$__tags\<close> replaced by the
  labels when there are configured tags and the template contains the marker.
\<close>

definition buildMetricsQuery ::
    "trace_to_metric_query \<Rightarrow> key_value list option \<Rightarrow> trace_span \<Rightarrow> string" where
  \<open>buildMetricsQuery query tagsArg sp =
     (let tagList = or_else tagsArg []
      in if \<not> truthy_string (or_else (mq_query query) [])
         then ''histogram_quantile(0.5, sum(rate(tempo_spanmetrics_latency_bucket{operation="''
                @ operationName sp @ ''"}[5m])) by (le))''
         else
           (let expr = or_else (mq_query query) []
            in if length tagList \<noteq> 0 \<and> indexOf expr ''$__tags'' \<noteq> - 1
               then
                 (let spanTags = process_tags (process sp) @ tags sp;
                      labels = foldl (metrics_label_step spanTags) [] tagList;
                      labelsQuery = join '', '' labels
                  in replace_global expr ''$__tags'' labelsQuery)
               else expr))\<close>

section \<open>Scoped variables\<close>

text \<open>
  The variable scopes handed to the template engine are plain JavaScript objects: a
  string, a number, or an object as the list of its properties in insertion order.
  \<open>assign k v obj\<close> is \<open>obj[k] = v\<close> and \<open>spread a b\<close> is \<open>{ ...a, ...b }\<close>.
\<close>

datatype js_value = Str string | Num rat | Obj "(string \<times> js_value) list"

type_synonym scoped_vars = "(string \<times> js_value) list"

fun assign :: "string \<Rightarrow> js_value \<Rightarrow> (string \<times> js_value) list \<Rightarrow> (string \<times> js_value) list" where
  "assign k v [] = [(k, v)]"
| "assign k v ((k', v') # ps) = (if k' = k then (k, v) # ps else (k', v') # assign k v ps)"

definition spread :: "(string \<times> js_value) list \<Rightarrow> (string \<times> js_value) list \<Rightarrow> (string \<times> js_value) list" where
  "spread a b = fold (\<lambda>(k, v). assign k v) b a"

text \<open>The members of a \<open>Trace\<close> that the link factory reads.\<close>

record trace =
  trace_traceID :: string
  traceName :: string
  trace_duration :: rat

definition scopedVarsFromTrace :: "trace \<Rightarrow> scoped_vars" where
  "scopedVarsFromTrace tr =
     [(''__trace'', Obj [(''text'', Str ''Trace''),
        (''value'', Obj [(''duration'', Obj [(''value'', Num (trace_duration tr))]),
                         (''name'', Obj [(''value'', Str (traceName tr))]),
                         (''id'', Obj [(''value'', Str (trace_traceID tr))])])])]"

definition scopedVarsFromSpan :: "trace_span \<Rightarrow> scoped_vars" where
  "scopedVarsFromSpan sp =
     (let tagVars = fold (\<lambda>tag. assign (kv_key tag)
                            (Obj [(''text'', Str (kv_key tag)), (''value'', Str (kv_value tag))]))
                      (tags sp) []
      in [(''__span'', Obj [(''text'', Str ''Span''),
            (''value'', Obj [(''id'', Obj [(''value'', Str (spanID sp))]),
                             (''duration'', Obj [(''value'', Num (duration sp))]),
                             (''name'', Obj [(''value'', Str (operationName sp))]),
                             (''tags'', Obj [(''value'', Obj tagVars)])])])])"

section \<open>The link factory\<close>

text \<open>
  The links of a span. A click handler is a value of the type parameter \<open>'c\<close>; an \<open><Icon>\<close>
  element is kept as its name and title. \<open>DataLink\<close>, its \<open>internal\<close> part and the instance
  settings of a data source keep the members the factory sets or reads.
\<close>

record icon =
  icon_name :: string
  icon_title :: string

record 'c link_model =
  lm_href :: string
  lm_onClick :: 'c

record 'c span_link_def =
  href :: string
  onClick :: 'c
  content :: icon
  title :: "string option"

record 'c span_links =
  logLinks :: "'c span_link_def list option"
  metricLinks :: "'c span_link_def list option"
  traceLinks :: "'c span_link_def list option"

record internal_link =
  il_datasourceUid :: string
  il_datasourceName :: string
  il_query :: data_query

record data_link =
  dl_title :: string
  dl_url :: string
  dl_internal :: internal_link

record ds_settings =
  ds_type :: string
  ds_name :: string
  ds_uid :: string

record field =
  field_name :: string
  config_links :: "data_link list option"

record data_frame =
  df_fields :: "field list"

text \<open>
  The arguments of the two link resolvers that vary between calls (the split-open callback,
  the empty field and the variable replacer are the same in every call).
\<close>

record explore_args =
  ea_link :: data_link
  ea_internalLink :: internal_link
  ea_scopedVars :: scoped_vars
  ea_range :: time_range

record field_links_args =
  fl_field :: "field option"
  fl_rowIndex :: "nat option"
  fl_range :: time_range
  fl_dataFrame :: data_frame
  fl_vars :: scoped_vars

datatype js_error = TypeError string | Error string

text \<open>
  A call either returns a value or throws. What a function of this file does not catch
  reaches its caller as \<open>Throw\<close>.
\<close>

datatype 'a completion = Normal 'a | Throw js_error

text \<open>
  The collaborators outside this file: the data source registry, the interval parser, and
  the two link resolvers. \<open>rangeUtil.intervalToMs\<close> throws on a string that is not an
  interval, and the source calls it outside any \<open>try\<close>, so its error reaches the caller of
  \<open>SpanLink\<close>. \<open>getFieldLinksForExplore\<close> may throw, which the source catches.
  \<open>mapInternalLinkToExplore\<close> is taken as returning.
\<close>

record 'c collaborators =
  getInstanceSettings :: "string \<Rightarrow> ds_settings option"
  intervalToMs :: "string \<Rightarrow> js_error + rat"
  mapInternalLinkToExplore :: "explore_args \<Rightarrow> 'c link_model"
  getFieldLinksForExplore :: "field_links_args \<Rightarrow> js_error + 'c link_model list"

text \<open>What the closure \<open>SpanLink\<close> keeps between calls, and the console it logs to.\<close>

record link_state =
  st_scopedVars :: scoped_vars
  st_console :: "js_error list"

subsection \<open>Legacy mode\<close>

text \<open>The data sources that \<open>legacyCreateSpanLinkFactory\<close> looks up once, before it returns \<open>SpanLink\<close>.\<close>

record legacy_settings =
  logsDataSourceSettings :: "ds_settings option"
  isSplunkDS :: bool
  metricsDataSourceSettings :: "ds_settings option"

definition legacy_dataSources ::
    "'c collaborators \<Rightarrow> trace_to_logs_options option \<Rightarrow> trace_to_metrics_options option
       \<Rightarrow> legacy_settings" where
  "legacy_dataSources env traceToLogsOptions traceToMetricsOptions =
     (let logsDs =
            (case traceToLogsOptions of
               None \<Rightarrow> None
             | Some opts \<Rightarrow>
                 (if truthy_string (or_else (logs_datasourceUid opts) [])
                  then getInstanceSettings env (or_else (logs_datasourceUid opts) []) else None));
          metricsDs =
            (case traceToMetricsOptions of
               None \<Rightarrow> None
             | Some opts \<Rightarrow>
                 (if truthy_string (or_else (metrics_datasourceUid opts) [])
                  then getInstanceSettings env (or_else (metrics_datasourceUid opts) []) else None))
      in \<lparr>logsDataSourceSettings = logsDs,
          isSplunkDS = (map_option ds_type logsDs = Some ''grafana-splunk-datasource''),
          metricsDataSourceSettings = metricsDs\<rparr>)"

text \<open>
  \<open>shift ? rangeUtil.intervalToMs(shift) : 0\<close>: an undefined or empty shift is zero and is
  not parsed; any other is parsed, and the parser's error is thrown on.
\<close>

definition shiftMs :: "'c collaborators \<Rightarrow> string option \<Rightarrow> rat completion" where
  "shiftMs env shift =
     (if truthy_string (or_else shift [])
      then (case intervalToMs env (or_else shift []) of
              Inl error \<Rightarrow> Throw error
            | Inr ms \<Rightarrow> Normal ms)
      else Normal 0)"

text \<open>
  The first block of \<open>SpanLink\<close>, ``Get logs link'': the builder is chosen by the type of the
  logs data source (an unknown type leaves \<open>queryData\<close> at its initial value); a link is made
  when there are tags or a custom query, and \<open>__tags\<close> is then added to the scoped variables.
  The two shifts are parsed, the start shift first, while the argument of
  \<open>mapInternalLinkToExplore\<close> is built, after the scoped variables were assigned: when the
  parser throws, the block throws and the closure keeps the new scoped variables.
\<close>

definition legacy_logs_link ::
    "'c collaborators \<Rightarrow> legacy_settings \<Rightarrow> trace_to_logs_options option \<Rightarrow> scoped_vars
       \<Rightarrow> trace_span \<Rightarrow> 'c span_links \<Rightarrow> 'c span_links completion \<times> scoped_vars" where
  "legacy_logs_link env ds traceToLogsOptions scopedVars sp links =
     (case (logsDataSourceSettings ds, traceToLogsOptions) of
        (Some logsDs, Some opts) \<Rightarrow>
          (let queryData0 = \<lparr>qd_query = RefIdQuery [], qd_tags = []\<rparr>;
               queryData =
                 (if ds_type logsDs = ''loki'' then getQueryForLoki sp opts
                  else if ds_type logsDs = ''grafana-splunk-datasource'' then getQueryForSplunk sp opts
                  else if ds_type logsDs = ''elasticsearch''
                          \<or> ds_type logsDs = ''grafana-opensearch-datasource''
                  then getQueryForElasticsearchOrOpensearch sp opts
                  else queryData0)
           in if truthy_string (qd_tags queryData) \<or> customQuery opts
              then
                (let dataLink =
                       \<lparr>dl_title = ds_name logsDs, dl_url = [],
                        dl_internal =
                          \<lparr>il_datasourceUid = ds_uid logsDs, il_datasourceName = ds_name logsDs,
                           il_query = (if customQuery opts then CustomQueryText (logs_query opts)
                                       else qd_query queryData)\<rparr>\<rparr>;
                     scopedVars1 =
                       spread scopedVars
                         [(''__tags'', Obj [(''text'', Str ''Tags''),
                                            (''value'', Str (qd_tags queryData))])]
                 in (case shiftMs env (logs_spanStartTimeShift opts) of
                       Throw error \<Rightarrow> (Throw error, scopedVars1)
                     | Normal shiftStart \<Rightarrow>
                         (case shiftMs env (logs_spanEndTimeShift opts) of
                            Throw error \<Rightarrow> (Throw error, scopedVars1)
                          | Normal shiftEnd \<Rightarrow>
                              (let link = mapInternalLinkToExplore env
                                     \<lparr>ea_link = dataLink, ea_internalLink = dl_internal dataLink,
                                      ea_scopedVars = scopedVars1,
                                      ea_range = getTimeRangeFromSpan sp
                                        \<lparr>startMs = shiftStart, endMs = shiftEnd\<rparr>
                                        (isSplunkDS ds)\<rparr>
                               in (Normal (links\<lparr>logLinks :=
                                     Some [\<lparr>href = lm_href link, onClick = lm_onClick link,
                                            content = \<lparr>icon_name = ''gf-logs'',
                                              icon_title = ''Explore the logs for this in split view''\<rparr>,
                                            title = None\<rparr>]\<rparr>),
                                   scopedVars1)))))
              else (Normal links, scopedVars))
      | _ \<Rightarrow> (Normal links, scopedVars))"

text \<open>
  The loop of ``Get metrics links'': one link is pushed for each configured query. Each
  round parses the two shifts again, the start shift first, and throws when the parser does.
\<close>

fun legacy_metrics_loop ::
    "'c collaborators \<Rightarrow> ds_settings \<Rightarrow> trace_to_metrics_options \<Rightarrow> trace_span
       \<Rightarrow> trace_to_metric_query list \<Rightarrow> 'c span_link_def list
       \<Rightarrow> 'c span_link_def list completion" where
  "legacy_metrics_loop env metricsDs opts sp [] acc = Normal acc"
| "legacy_metrics_loop env metricsDs opts sp (q # queries) acc =
     (let expr = buildMetricsQuery q (metrics_tags opts) sp;
          dataLink =
            \<lparr>dl_title = ds_name metricsDs, dl_url = [],
             dl_internal =
               \<lparr>il_datasourceUid = ds_uid metricsDs, il_datasourceName = ds_name metricsDs,
                il_query = PromQuery expr ''A''\<rparr>\<rparr>
      in (case shiftMs env (metrics_spanStartTimeShift opts) of
            Throw error \<Rightarrow> Throw error
          | Normal shiftStart \<Rightarrow>
              (case shiftMs env (metrics_spanEndTimeShift opts) of
                 Throw error \<Rightarrow> Throw error
               | Normal shiftEnd \<Rightarrow>
                   (let link = mapInternalLinkToExplore env
                          \<lparr>ea_link = dataLink, ea_internalLink = dl_internal dataLink,
                           ea_scopedVars = [],
                           ea_range = getTimeRangeFromSpan sp
                             \<lparr>startMs = shiftStart, endMs = shiftEnd\<rparr> False\<rparr>
                    in legacy_metrics_loop env metricsDs opts sp queries
                         (acc @ [\<lparr>href = lm_href link, onClick = lm_onClick link,
                                  content = \<lparr>icon_name = ''chart-line'',
                                    icon_title = ''Explore metrics for this span''\<rparr>,
                                  title = mq_name q\<rparr>])))))"

definition legacy_metrics_links ::
    "'c collaborators \<Rightarrow> legacy_settings \<Rightarrow> trace_to_metrics_options option \<Rightarrow> trace_span
       \<Rightarrow> 'c span_links \<Rightarrow> 'c span_links completion" where
  "legacy_metrics_links env ds traceToMetricsOptions sp links =
     (case (metricsDataSourceSettings ds, traceToMetricsOptions) of
        (Some metricsDs, Some opts) \<Rightarrow>
          (case metrics_queries opts of
             Some queries \<Rightarrow>
               (case legacy_metrics_loop env metricsDs opts sp queries [] of
                  Throw error \<Rightarrow> Throw error
                | Normal metricLinksOut \<Rightarrow> Normal (links\<lparr>metricLinks := Some metricLinksOut\<rparr>))
           | None \<Rightarrow> Normal links)
      | _ \<Rightarrow> Normal links)"

text \<open>
  The link that both loops of ``Get trace links'' push for a reference: made by
  \<open>createFocusSpanLink\<close> from the reference's trace and span ID, and titled with the
  referenced span's operation name when the reference carries that span.
\<close>

definition referenceLink ::
    "(string \<Rightarrow> string \<Rightarrow> 'c link_model) \<Rightarrow> trace_span_reference \<Rightarrow> 'c span_link_def" where
  "referenceLink createFocusSpanLink reference =
     (let link = createFocusSpanLink (ref_traceID reference) (ref_spanID reference)
      in \<lparr>href = lm_href link, onClick = lm_onClick link,
          content = \<lparr>icon_name = ''link'', icon_title = ''View linked span''\<rparr>,
          title = Some (case ref_span reference of
                          Some s \<Rightarrow> operationName s
                        | None \<Rightarrow> ''View linked span'')\<rparr>)"

text \<open>The loop over \<open>span.references\<close>, which skips (\<open>continue\<close>) the parent-child references.\<close>

fun references_loop ::
    "(string \<Rightarrow> string \<Rightarrow> 'c link_model) \<Rightarrow> trace_span_reference list
       \<Rightarrow> 'c span_link_def list \<Rightarrow> 'c span_link_def list" where
  "references_loop createFocusSpanLink [] acc = acc"
| "references_loop createFocusSpanLink (reference # rest) acc =
     (if refType reference = ''CHILD_OF''
      then references_loop createFocusSpanLink rest acc
      else references_loop createFocusSpanLink rest
             (acc @ [referenceLink createFocusSpanLink reference]))"

text \<open>The loop over \<open>span.subsidiarilyReferencedBy\<close>, which has no such test.\<close>

fun subsidiary_loop ::
    "(string \<Rightarrow> string \<Rightarrow> 'c link_model) \<Rightarrow> trace_span_reference list
       \<Rightarrow> 'c span_link_def list \<Rightarrow> 'c span_link_def list" where
  "subsidiary_loop createFocusSpanLink [] acc = acc"
| "subsidiary_loop createFocusSpanLink (reference # rest) acc =
     subsidiary_loop createFocusSpanLink rest
       (acc @ [referenceLink createFocusSpanLink reference])"

definition legacy_trace_links ::
    "(string \<Rightarrow> string \<Rightarrow> 'c link_model) option \<Rightarrow> trace_span \<Rightarrow> 'c span_links \<Rightarrow> 'c span_links" where
  "legacy_trace_links createFocusSpanLink sp links =
     (let links1 =
            (case (references sp, createFocusSpanLink) of
               (Some refs, Some f) \<Rightarrow>
                 links\<lparr>traceLinks := map_option (references_loop f refs) (traceLinks links)\<rparr>
             | _ \<Rightarrow> links)
      in (case (subsidiarilyReferencedBy sp, createFocusSpanLink) of
            (Some refs, Some f) \<Rightarrow>
              links1\<lparr>traceLinks := map_option (subsidiary_loop f refs) (traceLinks links1)\<rparr>
          | _ \<Rightarrow> links1))"

text \<open>
  The function \<open>SpanLink\<close> returned by \<open>legacyCreateSpanLinkFactory\<close>. It starts from
  \<open>{ traceLinks: [] }\<close> and runs the three blocks; the scoped variables it has merged stay
  in the closure for the next call. It has no \<open>try\<close>: what the logs or the metrics block
  throws ends the call, before the trace links are made, and reaches the caller.
\<close>

definition legacy_SpanLink ::
    "'c collaborators \<Rightarrow> legacy_settings \<Rightarrow> trace_to_logs_options option
       \<Rightarrow> trace_to_metrics_options option \<Rightarrow> (string \<Rightarrow> string \<Rightarrow> 'c link_model) option
       \<Rightarrow> scoped_vars \<Rightarrow> trace_span \<Rightarrow> 'c span_links completion \<times> scoped_vars" where
  "legacy_SpanLink env ds traceToLogsOptions traceToMetricsOptions createFocusSpanLink scopedVars sp =
     (let scopedVars1 = spread scopedVars (scopedVarsFromSpan sp);
          links0 = \<lparr>logLinks = None, metricLinks = None, traceLinks = Some []\<rparr>
      in (case legacy_logs_link env ds traceToLogsOptions scopedVars1 sp links0 of
            (Throw error, scopedVars2) \<Rightarrow> (Throw error, scopedVars2)
          | (Normal links1, scopedVars2) \<Rightarrow>
              (case legacy_metrics_links env ds traceToMetricsOptions sp links1 of
                 Throw error \<Rightarrow> (Throw error, scopedVars2)
               | Normal links2 \<Rightarrow>
                   (Normal (legacy_trace_links createFocusSpanLink sp links2), scopedVars2))))"

definition legacyCreateSpanLinkFactory ::
    "'c collaborators \<Rightarrow> trace_to_logs_options option \<Rightarrow> trace_to_metrics_options option
       \<Rightarrow> (string \<Rightarrow> string \<Rightarrow> 'c link_model) option
       \<Rightarrow> link_state \<Rightarrow> trace_span \<Rightarrow> 'c span_links option completion \<times> link_state" where
  "legacyCreateSpanLinkFactory env traceToLogsOptions traceToMetricsOptions createFocusSpanLink =
     (let ds = legacy_dataSources env traceToLogsOptions traceToMetricsOptions
      in (\<lambda>st sp.
            (case legacy_SpanLink env ds traceToLogsOptions traceToMetricsOptions
                    createFocusSpanLink (st_scopedVars st) sp of
               (Throw error, scopedVars) \<Rightarrow> (Throw error, st\<lparr>st_scopedVars := scopedVars\<rparr>)
             | (Normal links, scopedVars) \<Rightarrow>
                 (Normal (Some links), st\<lparr>st_scopedVars := scopedVars\<rparr>))))"

subsection \<open>Structured mode\<close>

text \<open>\<open>Boolean(f.config.links?.length)\<close>.\<close>

definition has_links :: "field \<Rightarrow> bool" where
  "has_links f = (case config_links f of Some ls \<Rightarrow> length ls \<noteq> 0 | None \<Rightarrow> False)"

text \<open>
  The body of the \<open>try\<close> block: the resolver may throw, and reading \<open>links[0].href\<close> of an
  empty result throws a \<open>TypeError\<close>.
\<close>

definition structured_try ::
    "'c collaborators \<Rightarrow> data_frame \<Rightarrow> field option \<Rightarrow> scoped_vars \<Rightarrow> trace_span
       \<Rightarrow> 'c span_links completion" where
  "structured_try env dataFrame fld scopedVars sp =
     (case getFieldLinksForExplore env
             \<lparr>fl_field = fld, fl_rowIndex = dataFrameRowIndex sp,
              fl_range = getTimeRangeFromSpan sp default_timeShift False,
              fl_dataFrame = dataFrame, fl_vars = scopedVars\<rparr> of
        Inl error \<Rightarrow> Throw error
      | Inr [] \<Rightarrow> Throw (TypeError ''links[0] is undefined'')
      | Inr (l # ls) \<Rightarrow>
          Normal \<lparr>logLinks =
                    Some [\<lparr>href = lm_href l, onClick = lm_onClick l,
                           content = \<lparr>icon_name = ''gf-logs'',
                             icon_title = ''Explore the logs for this in split view''\<rparr>,
                           title = None\<rparr>],
                  metricLinks = None, traceLinks = None\<rparr>)"

text \<open>
  The function \<open>SpanLink\<close> of the structured mode: \<open>try { ... } catch (error) {
  console.error(error); return undefined; }\<close>.
\<close>

definition structured_SpanLink ::
    "'c collaborators \<Rightarrow> data_frame \<Rightarrow> link_state \<Rightarrow> trace_span
       \<Rightarrow> 'c span_links option completion \<times> link_state" where
  "structured_SpanLink env dataFrame st sp =
     (let scopedVars = spread (st_scopedVars st) (scopedVarsFromSpan sp);
          fld = find has_links (df_fields dataFrame)
      in (case structured_try env dataFrame fld scopedVars sp of
            Normal links \<Rightarrow> (Normal (Some links), st\<lparr>st_scopedVars := scopedVars\<rparr>)
          | Throw error \<Rightarrow>
              (Normal None,
               st\<lparr>st_scopedVars := scopedVars, st_console := st_console st @ [error]\<rparr>)))"

text \<open>
  \<open>createSpanLinkFactory\<close>: the state the returned function starts from (the scoped
  variables of the trace and an empty console) and the function itself.
\<close>

definition createSpanLinkFactory ::
    "'c collaborators \<Rightarrow> trace_to_logs_options option \<Rightarrow> trace_to_metrics_options option
       \<Rightarrow> data_frame option \<Rightarrow> (string \<Rightarrow> string \<Rightarrow> 'c link_model) option \<Rightarrow> trace
       \<Rightarrow> link_state \<times> (link_state \<Rightarrow> trace_span \<Rightarrow> 'c span_links option completion \<times> link_state)" where
  "createSpanLinkFactory env traceToLogsOptions traceToMetricsOptions dataFrame createFocusSpanLink tr =
     (let st0 = \<lparr>st_scopedVars = scopedVarsFromTrace tr, st_console = []\<rparr>
      in (case dataFrame of
            None \<Rightarrow>
              (st0, legacyCreateSpanLinkFactory env traceToLogsOptions traceToMetricsOptions
                      createFocusSpanLink)
          | Some df \<Rightarrow>
              (if length (df_fields df) = 1 \<or> \<not> list_ex has_links (df_fields df)
               then (st0, legacyCreateSpanLinkFactory env traceToLogsOptions traceToMetricsOptions
                            createFocusSpanLink)
               else (st0, structured_SpanLink env df))))"

section \<open>The state history stub\<close>

text \<open>
  Modelled from the spec: \<open>data.NewFrame\<close> and \<open>Frame.Rows\<close> belong to the plugin SDK, which
  is not part of the sources; a frame is a named table of fields, \<open>NewFrame\<close> builds it from
  a name and the given fields, and a frame with no field has zero rows.
\<close>

record frame_field =
  ff_name :: string
  ff_values :: "string list"

record frame =
  frame_Name :: string
  frame_Fields :: "frame_field list"

definition NewFrame :: "string \<Rightarrow> frame_field list \<Rightarrow> frame" where
  "NewFrame name flds = \<lparr>frame_Name = name, frame_Fields = flds\<rparr>"

definition Rows :: "frame \<Rightarrow> nat" where
  "Rows f = (case frame_Fields f of [] \<Rightarrow> 0 | fld # _ \<Rightarrow> length (ff_values fld))"

text \<open>
  \<open>SqlBackend\<close> holds a logger, kept as its name. \<open>RecordStatesAsync\<close> has an empty body and
  no result: the model returns the backend, which is all the state it could have changed.
  \<open>QueryStates\<close> returns a frame pointer and an error, either of which may be \<open>nil\<close>.
\<close>

record sql_backend =
  log :: string

datatype go_error = GoError string

definition NewSqlBackend :: sql_backend where
  "NewSqlBackend = \<lparr>log = ''ngalert.state.historian''\<rparr>"

definition RecordStatesAsync :: "sql_backend \<Rightarrow> 'ctx \<Rightarrow> 'rule \<Rightarrow> 'transition list \<Rightarrow> sql_backend" where
  "RecordStatesAsync h ctx rule transitions = h"

definition QueryStates :: "sql_backend \<Rightarrow> 'ctx \<Rightarrow> 'query \<Rightarrow> frame option \<times> go_error option" where
  "QueryStates h ctx query = (Some (NewFrame ''states'' []), None)"

section \<open>Properties of the time window\<close>

lemma getTimeRangeFromSpan_from:
  "range_from (getTimeRangeFromSpan sp timeShift splunk) =
     \<lfloor>startTime sp / 1000 + startMs timeShift\<rfloor>"
  by (simp add: getTimeRangeFromSpan_def Let_def)

text \<open>With the Splunk flag the window is never narrower than one second.\<close>

lemma getTimeRangeFromSpan_splunk_width:
  "range_from (getTimeRangeFromSpan sp timeShift True) + 1000
     \<le> range_to (getTimeRangeFromSpan sp timeShift True)"
  by (simp add: getTimeRangeFromSpan_def Let_def)

text \<open>
  Without the flag the window is widened only when its two ends coincide, so the end is
  later than the start exactly when the end computed from the span and the shifts does
  not precede the start.
\<close>

lemma getTimeRangeFromSpan_plain_later:
  "range_from (getTimeRangeFromSpan sp timeShift False)
       < range_to (getTimeRangeFromSpan sp timeShift False)
     \<longleftrightarrow> \<lfloor>startTime sp / 1000 + startMs timeShift\<rfloor>
           \<le> \<lfloor>(startTime sp + duration sp) / 1000 + endMs timeShift\<rfloor>"
  by (auto simp add: getTimeRangeFromSpan_def Let_def)

text \<open>
  Claim C1 says that the end of the returned range is later than its start for every span
  and every pair of shifts. A span of no duration with a start shift of one second and no
  end shift, for a data source other than Splunk, gets a range that starts at 1000 ms and
  ends at 0 ms: the equality test of the source does not see an end that precedes the
  start, although its comment asks for an end later than the start and the Splunk branch
  widens such a window.
\<close>

theorem C1_getTimeRangeFromSpan_end_before_start:
  "getTimeRangeFromSpan
       (TraceSpan ''s1'' ''t1'' ''op'' 0 0 [] \<lparr>serviceName = ''svc'', process_tags = []\<rparr>
          (Some []) (Some []) None)
       \<lparr>startMs = 1000, endMs = 0\<rparr> False
     = \<lparr>range_from = 1000, range_to = 0, raw = \<lparr>raw_from = 1000, raw_to = 0\<rparr>\<rparr>"
  by (simp add: getTimeRangeFromSpan_def Let_def)

text \<open>
  Claim C4: when the start of a span and its end fall into the same millisecond and both
  shifts are zero, the range starts at that millisecond and ends exactly 1 ms later
  without the minimum-width flag, and exactly 1000 ms later with it.
\<close>

theorem C4_equal_after_truncation:
  assumes "\<lfloor>startTime sp / 1000\<rfloor> = \<lfloor>(startTime sp + duration sp) / 1000\<rfloor>"
  shows "range_from (getTimeRangeFromSpan sp default_timeShift False) = \<lfloor>startTime sp / 1000\<rfloor>
       \<and> range_to (getTimeRangeFromSpan sp default_timeShift False) = \<lfloor>startTime sp / 1000\<rfloor> + 1
       \<and> range_from (getTimeRangeFromSpan sp default_timeShift True) = \<lfloor>startTime sp / 1000\<rfloor>
       \<and> range_to (getTimeRangeFromSpan sp default_timeShift True) = \<lfloor>startTime sp / 1000\<rfloor> + 1000"
  using assms by (simp add: getTimeRangeFromSpan_def default_timeShift_def Let_def)

theorem C4_equal_after_truncation_witness:
  "\<lfloor>startTime (TraceSpan ''s1'' ''t1'' ''op'' 1500 300 [] \<lparr>serviceName = ''svc'', process_tags = []\<rparr>
        (Some []) (Some []) None) / 1000\<rfloor> = 1
   \<and> range_to (getTimeRangeFromSpan
        (TraceSpan ''s1'' ''t1'' ''op'' 1500 300 [] \<lparr>serviceName = ''svc'', process_tags = []\<rparr>
           (Some []) (Some []) None) default_timeShift False) = 2
   \<and> range_to (getTimeRangeFromSpan
        (TraceSpan ''s1'' ''t1'' ''op'' 1500 300 [] \<lparr>serviceName = ''svc'', process_tags = []\<rparr>
           (Some []) (Some []) None) default_timeShift True) = 1001"
proof -
  let ?span = "TraceSpan ''s1'' ''t1'' ''op'' 1500 300 [] \<lparr>serviceName = ''svc'', process_tags = []\<rparr>
                 (Some []) (Some []) None"
  have fl1: "\<lfloor>(1500::rat) / 1000\<rfloor> = 1" by code_simp
  have fl2: "\<lfloor>((1500::rat) + 300) / 1000\<rfloor> = 1" by code_simp
  have h: "\<lfloor>startTime ?span / 1000\<rfloor> = \<lfloor>(startTime ?span + duration ?span) / 1000\<rfloor>"
    by (simp only: trace_span.sel fl1 fl2)
  from C4_equal_after_truncation [OF h] show ?thesis
    by (simp only: trace_span.sel fl1) simp
qed

section \<open>Properties of tag resolution and of the log query builders\<close>

lemma find_defaultKeys:
  "find (\<lambda>keyValue. map_key keyValue = k) defaultKeys =
     (if k \<in> set [''cluster'', ''hostname'', ''namespace'', ''pod'']
      then Some \<lparr>map_key = k, map_value = None\<rparr> else None)"
  by (auto simp add: defaultKeys_def)

lemma filter_Boolean_map_default:
  \<open>filter_Boolean (map (\<lambda>tag.
       (case find (\<lambda>keyValue. map_key keyValue = kv_key tag) defaultKeys of
          Some keyValue \<Rightarrow>
            Some ((if truthy_string (or_else (map_value keyValue) [])
                   then or_else (map_value keyValue) [] else map_key keyValue)
                  @ sign @ ''"'' @ kv_value tag @ ''"'')
        | None \<Rightarrow> None)) ts)
   = map (\<lambda>tag. kv_key tag @ sign @ ''"'' @ kv_value tag @ ''"'')
       (filter (\<lambda>tag. kv_key tag \<in> set [''cluster'', ''hostname'', ''namespace'', ''pod'']) ts)\<close>
  by (induction ts) (simp_all add: find_defaultKeys or_else_def truthy_string_def)

text \<open>
  Resolution against the default keys keeps exactly the tags named cluster, hostname,
  namespace or pod, process tags first, each under its own key.
\<close>

lemma getTags_defaultKeys:
  \<open>getTags sp defaultKeys sign =
     map (\<lambda>tag. kv_key tag @ sign @ ''"'' @ kv_value tag @ ''"'')
       (filter (\<lambda>tag. kv_key tag \<in> set [''cluster'', ''hostname'', ''namespace'', ''pod''])
          (process_tags (process sp) @ tags sp))\<close>
  unfolding getTags_def by (rule filter_Boolean_map_default)

lemma filter_Boolean_None: "filter_Boolean (map (\<lambda>tag. None) ts) = []"
  by (induction ts) simp_all

lemma getTags_empty_mapping: "getTags sp [] sign = []"
  unfolding getTags_def by (simp add: filter_Boolean_None del: map_append)

text \<open>
  Claim C2 says that every log query builder replaces an empty tag mapping by the four
  default keys. The Elasticsearch/OpenSearch builder, given the empty mapping and a span
  with a \<open>cluster\<close> tag and a \<open>pod\<close> process tag, resolves no tag at all, where the default
  keys would give \<open>pod:"p1" AND cluster:"c1"\<close>.
\<close>

theorem C2_elasticsearch_no_default_counterexample:
  \<open>qd_tags (getQueryForElasticsearchOrOpensearch
       (TraceSpan ''7946b05c2e2e4e5a'' ''6605c7b08e715d6c'' ''op'' 1500 300
          [\<lparr>kv_key = ''cluster'', kv_value = ''c1''\<rparr>]
          \<lparr>serviceName = ''svc'', process_tags = [\<lparr>kv_key = ''pod'', kv_value = ''p1''\<rparr>]\<rparr>
          (Some []) (Some []) None)
       \<lparr>logs_datasourceUid = Some ''es'', logs_tags = Some [],
        logs_spanStartTimeShift = None, logs_spanEndTimeShift = None,
        filterByTraceID = None, filterBySpanID = None, logs_query = None,
        customQuery = False\<rparr>) = []
   \<and> join '' AND '' (getTags
       (TraceSpan ''7946b05c2e2e4e5a'' ''6605c7b08e715d6c'' ''op'' 1500 300
          [\<lparr>kv_key = ''cluster'', kv_value = ''c1''\<rparr>]
          \<lparr>serviceName = ''svc'', process_tags = [\<lparr>kv_key = ''pod'', kv_value = ''p1''\<rparr>]\<rparr>
          (Some []) (Some []) None)
       defaultKeys '':'') = ''pod:"p1" AND cluster:"c1"''
   \<and> qd_tags (getQueryForElasticsearchOrOpensearch
       (TraceSpan ''7946b05c2e2e4e5a'' ''6605c7b08e715d6c'' ''op'' 1500 300
          [\<lparr>kv_key = ''cluster'', kv_value = ''c1''\<rparr>]
          \<lparr>serviceName = ''svc'', process_tags = [\<lparr>kv_key = ''pod'', kv_value = ''p1''\<rparr>]\<rparr>
          (Some []) (Some []) None)
       \<lparr>logs_datasourceUid = Some ''es'', logs_tags = Some [],
        logs_spanStartTimeShift = None, logs_spanEndTimeShift = None,
        filterByTraceID = None, filterBySpanID = None, logs_query = None,
        customQuery = False\<rparr>)
     \<noteq> join '' AND '' (getTags
       (TraceSpan ''7946b05c2e2e4e5a'' ''6605c7b08e715d6c'' ''op'' 1500 300
          [\<lparr>kv_key = ''cluster'', kv_value = ''c1''\<rparr>]
          \<lparr>serviceName = ''svc'', process_tags = [\<lparr>kv_key = ''pod'', kv_value = ''p1''\<rparr>]\<rparr>
          (Some []) (Some []) None)
       defaultKeys '':'')\<close>
  by (simp add: getQueryForElasticsearchOrOpensearch_def getTags_def defaultKeys_def
      or_else_def truthy_string_def Let_def)

text \<open>
  Claim C2, amended: when the options carry no tag mapping (\<open>tags\<close> is undefined), the Loki
  and the Splunk builder resolve the span's tags against the four default keys cluster,
  hostname, namespace and pod, so their tag string lists exactly the process and span tags
  with one of these keys; the Elasticsearch/OpenSearch builder has no default: with no
  mapping, or an empty one, its tag string is empty.
\<close>

theorem C2_default_mapping_when_absent:
  \<open>map map_key defaultKeys = [''cluster'', ''hostname'', ''namespace'', ''pod'']
   \<and> (logs_tags options = None \<longrightarrow>
        qd_tags (getQueryForLoki sp options) =
          join '', '' (map (\<lambda>tag. kv_key tag @ ''='' @ ''"'' @ kv_value tag @ ''"'')
            (filter (\<lambda>tag. kv_key tag \<in> set [''cluster'', ''hostname'', ''namespace'', ''pod''])
               (process_tags (process sp) @ tags sp)))
      \<and> qd_tags (getQueryForSplunk sp options) =
          join '' '' (map (\<lambda>tag. kv_key tag @ ''='' @ ''"'' @ kv_value tag @ ''"'')
            (filter (\<lambda>tag. kv_key tag \<in> set [''cluster'', ''hostname'', ''namespace'', ''pod''])
               (process_tags (process sp) @ tags sp))))
   \<and> (logs_tags options = None \<or> logs_tags options = Some [] \<longrightarrow>
        qd_tags (getQueryForElasticsearchOrOpensearch sp options) = [])\<close>
proof (intro conjI impI)
  show "map map_key defaultKeys = [''cluster'', ''hostname'', ''namespace'', ''pod'']"
    by (simp add: defaultKeys_def)
next
  assume "logs_tags options = None"
  then show \<open>qd_tags (getQueryForLoki sp options) =
          join '', '' (map (\<lambda>tag. kv_key tag @ ''='' @ ''"'' @ kv_value tag @ ''"'')
            (filter (\<lambda>tag. kv_key tag \<in> set [''cluster'', ''hostname'', ''namespace'', ''pod''])
               (process_tags (process sp) @ tags sp)))\<close>
    by (simp add: getQueryForLoki_def or_else_def Let_def getTags_defaultKeys del: map_append filter_append)
next
  assume "logs_tags options = None"
  then show \<open>qd_tags (getQueryForSplunk sp options) =
          join '' '' (map (\<lambda>tag. kv_key tag @ ''='' @ ''"'' @ kv_value tag @ ''"'')
            (filter (\<lambda>tag. kv_key tag \<in> set [''cluster'', ''hostname'', ''namespace'', ''pod''])
               (process_tags (process sp) @ tags sp)))\<close>
    by (simp add: getQueryForSplunk_def or_else_def Let_def getTags_defaultKeys del: map_append filter_append)
next
  assume "logs_tags options = None \<or> logs_tags options = Some []"
  then have "or_else (logs_tags options) [] = []"
    by (auto simp add: or_else_def)
  then show "qd_tags (getQueryForElasticsearchOrOpensearch sp options) = []"
    by (simp add: getQueryForElasticsearchOrOpensearch_def Let_def getTags_empty_mapping)
qed

theorem C2_default_mapping_when_absent_witness:
  \<open>logs_tags \<lparr>logs_datasourceUid = Some ''loki'', logs_tags = None,
        logs_spanStartTimeShift = None, logs_spanEndTimeShift = None,
        filterByTraceID = None, filterBySpanID = None, logs_query = None,
        customQuery = False\<rparr> = None
   \<and> qd_tags (getQueryForLoki
       (TraceSpan ''7946b05c2e2e4e5a'' ''6605c7b08e715d6c'' ''op'' 1500 300
          [\<lparr>kv_key = ''cluster'', kv_value = ''c1''\<rparr>, \<lparr>kv_key = ''other'', kv_value = ''o''\<rparr>]
          \<lparr>serviceName = ''svc'', process_tags = [\<lparr>kv_key = ''pod'', kv_value = ''p1''\<rparr>]\<rparr>
          (Some []) (Some []) None)
       \<lparr>logs_datasourceUid = Some ''loki'', logs_tags = None,
        logs_spanStartTimeShift = None, logs_spanEndTimeShift = None,
        filterByTraceID = None, filterBySpanID = None, logs_query = None,
        customQuery = False\<rparr>) = ''pod="p1", cluster="c1"''
   \<and> qd_tags (getQueryForSplunk
       (TraceSpan ''7946b05c2e2e4e5a'' ''6605c7b08e715d6c'' ''op'' 1500 300
          [\<lparr>kv_key = ''cluster'', kv_value = ''c1''\<rparr>, \<lparr>kv_key = ''other'', kv_value = ''o''\<rparr>]
          \<lparr>serviceName = ''svc'', process_tags = [\<lparr>kv_key = ''pod'', kv_value = ''p1''\<rparr>]\<rparr>
          (Some []) (Some []) None)
       \<lparr>logs_datasourceUid = Some ''loki'', logs_tags = None,
        logs_spanStartTimeShift = None, logs_spanEndTimeShift = None,
        filterByTraceID = None, filterBySpanID = None, logs_query = None,
        customQuery = False\<rparr>) = ''pod="p1" cluster="c1"''
   \<and> qd_tags (getQueryForElasticsearchOrOpensearch
       (TraceSpan ''7946b05c2e2e4e5a'' ''6605c7b08e715d6c'' ''op'' 1500 300
          [\<lparr>kv_key = ''cluster'', kv_value = ''c1''\<rparr>, \<lparr>kv_key = ''other'', kv_value = ''o''\<rparr>]
          \<lparr>serviceName = ''svc'', process_tags = [\<lparr>kv_key = ''pod'', kv_value = ''p1''\<rparr>]\<rparr>
          (Some []) (Some []) None)
       \<lparr>logs_datasourceUid = Some ''loki'', logs_tags = None,
        logs_spanStartTimeShift = None, logs_spanEndTimeShift = None,
        filterByTraceID = None, filterBySpanID = None, logs_query = None,
        customQuery = False\<rparr>) = []\<close>
  using C2_default_mapping_when_absent
    [of \<open>\<lparr>logs_datasourceUid = Some ''loki'', logs_tags = None,
        logs_spanStartTimeShift = None, logs_spanEndTimeShift = None,
        filterByTraceID = None, filterBySpanID = None, logs_query = None,
        customQuery = False\<rparr>\<close>
       \<open>TraceSpan ''7946b05c2e2e4e5a'' ''6605c7b08e715d6c'' ''op'' 1500 300
          [\<lparr>kv_key = ''cluster'', kv_value = ''c1''\<rparr>, \<lparr>kv_key = ''other'', kv_value = ''o''\<rparr>]
          \<lparr>serviceName = ''svc'', process_tags = [\<lparr>kv_key = ''pod'', kv_value = ''p1''\<rparr>]\<rparr>
          (Some []) (Some []) None\<close>]
  by simp

text \<open>
  Claim C3 gives \<open>"$__span.traceId" AND "$__span.id" AND \<close> as the query built from no tags
  with both ID filters on. For a span with both IDs and options with both filters and no tag
  mapping, the Elasticsearch/OpenSearch builder returns the two clauses in the other
  order, and the Splunk builder returns the two quoted tokens with no \<open>AND\<close>.
\<close>

theorem C3_id_filter_order_counterexample:
  \<open>query_text (qd_query (getQueryForElasticsearchOrOpensearch
       (TraceSpan ''7946b05c2e2e4e5a'' ''6605c7b08e715d6c'' ''op'' 1500 300 []
          \<lparr>serviceName = ''svc'', process_tags = []\<rparr> (Some []) (Some []) None)
       \<lparr>logs_datasourceUid = Some ''es'', logs_tags = None,
        logs_spanStartTimeShift = None, logs_spanEndTimeShift = None,
        filterByTraceID = Some True, filterBySpanID = Some True, logs_query = None,
        customQuery = False\<rparr>))
     = ''"$__span.id" AND "$__span.traceId" AND ''
   \<and> query_text (qd_query (getQueryForElasticsearchOrOpensearch
       (TraceSpan ''7946b05c2e2e4e5a'' ''6605c7b08e715d6c'' ''op'' 1500 300 []
          \<lparr>serviceName = ''svc'', process_tags = []\<rparr> (Some []) (Some []) None)
       \<lparr>logs_datasourceUid = Some ''es'', logs_tags = None,
        logs_spanStartTimeShift = None, logs_spanEndTimeShift = None,
        filterByTraceID = Some True, filterBySpanID = Some True, logs_query = None,
        customQuery = False\<rparr>))
     \<noteq> ''"$__span.traceId" AND "$__span.id" AND ''
   \<and> query_text (qd_query (getQueryForSplunk
       (TraceSpan ''7946b05c2e2e4e5a'' ''6605c7b08e715d6c'' ''op'' 1500 300 []
          \<lparr>serviceName = ''svc'', process_tags = []\<rparr> (Some []) (Some []) None)
       \<lparr>logs_datasourceUid = Some ''es'', logs_tags = None,
        logs_spanStartTimeShift = None, logs_spanEndTimeShift = None,
        filterByTraceID = Some True, filterBySpanID = Some True, logs_query = None,
        customQuery = False\<rparr>))
     \<noteq> ''"$__span.traceId" AND "$__span.id" AND ''\<close>
  by (simp add: getQueryForElasticsearchOrOpensearch_def getQueryForSplunk_def getTags_def
      or_else_def truthy_string_def truthy_flag_def Let_def)

text \<open>
  Claim C3, amended: for a span with a trace ID and a span ID, both ID filters on and no
  tag resolved, the Elasticsearch/OpenSearch builder, which puts each ID clause in front
  of the query, returns exactly \<open>"$__span.id" AND "$__span.traceId" AND \<close> (the span ID
  clause, added last, comes first), and the Splunk builder, which appends each ID as a
  quoted token, returns exactly \<open> "$__span.traceId" "$__span.id"\<close>.
\<close>

theorem C3_id_filters_with_no_tags:
  assumes "truthy_string (traceID sp)" and "truthy_string (spanID sp)"
    and "filterByTraceID options = Some True" and "filterBySpanID options = Some True"
  shows \<open>(getTags sp (or_else (logs_tags options) []) '':'' = [] \<longrightarrow>
            query_text (qd_query (getQueryForElasticsearchOrOpensearch sp options))
              = ''"$__span.id" AND "$__span.traceId" AND '')
       \<and> (getTags sp (or_else (logs_tags options) defaultKeys) ''='' = [] \<longrightarrow>
            query_text (qd_query (getQueryForSplunk sp options))
              = '' "$__span.traceId" "$__span.id"'')\<close>
  using assms
  by (simp add: getQueryForElasticsearchOrOpensearch_def getQueryForSplunk_def
      truthy_string_def truthy_flag_def Let_def)

theorem C3_id_filters_with_no_tags_witness:
  \<open>truthy_string (traceID (TraceSpan ''7946b05c2e2e4e5a'' ''6605c7b08e715d6c'' ''op'' 1500 300
          [\<lparr>kv_key = ''other'', kv_value = ''o''\<rparr>]
          \<lparr>serviceName = ''svc'', process_tags = []\<rparr> (Some []) (Some []) None))
   \<and> truthy_string (spanID (TraceSpan ''7946b05c2e2e4e5a'' ''6605c7b08e715d6c'' ''op'' 1500 300
          [\<lparr>kv_key = ''other'', kv_value = ''o''\<rparr>]
          \<lparr>serviceName = ''svc'', process_tags = []\<rparr> (Some []) (Some []) None))
   \<and> query_text (qd_query (getQueryForElasticsearchOrOpensearch
       (TraceSpan ''7946b05c2e2e4e5a'' ''6605c7b08e715d6c'' ''op'' 1500 300
          [\<lparr>kv_key = ''other'', kv_value = ''o''\<rparr>]
          \<lparr>serviceName = ''svc'', process_tags = []\<rparr> (Some []) (Some []) None)
       \<lparr>logs_datasourceUid = Some ''es'', logs_tags = None,
        logs_spanStartTimeShift = None, logs_spanEndTimeShift = None,
        filterByTraceID = Some True, filterBySpanID = Some True, logs_query = None,
        customQuery = False\<rparr>))
     = ''"$__span.id" AND "$__span.traceId" AND ''
   \<and> query_text (qd_query (getQueryForSplunk
       (TraceSpan ''7946b05c2e2e4e5a'' ''6605c7b08e715d6c'' ''op'' 1500 300
          [\<lparr>kv_key = ''other'', kv_value = ''o''\<rparr>]
          \<lparr>serviceName = ''svc'', process_tags = []\<rparr> (Some []) (Some []) None)
       \<lparr>logs_datasourceUid = Some ''es'', logs_tags = None,
        logs_spanStartTimeShift = None, logs_spanEndTimeShift = None,
        filterByTraceID = Some True, filterBySpanID = Some True, logs_query = None,
        customQuery = False\<rparr>))
     = '' "$__span.traceId" "$__span.id"''\<close>
proof -
  let ?sp = \<open>TraceSpan ''7946b05c2e2e4e5a'' ''6605c7b08e715d6c'' ''op'' 1500 300
          [\<lparr>kv_key = ''other'', kv_value = ''o''\<rparr>]
          \<lparr>serviceName = ''svc'', process_tags = []\<rparr> (Some []) (Some []) None\<close>
  let ?o = \<open>\<lparr>logs_datasourceUid = Some ''es'', logs_tags = None,
        logs_spanStartTimeShift = None, logs_spanEndTimeShift = None,
        filterByTraceID = Some True, filterBySpanID = Some True, logs_query = None,
        customQuery = False\<rparr>\<close>
  have t: "truthy_string (traceID ?sp)" and s: "truthy_string (spanID ?sp)"
    by (simp_all add: truthy_string_def)
  have ft: "filterByTraceID ?o = Some True" and fs: "filterBySpanID ?o = Some True"
    by simp_all
  have e1: "getTags ?sp (or_else (logs_tags ?o) []) '':'' = []"
    by (simp add: getTags_def or_else_def)
  have e2: "getTags ?sp (or_else (logs_tags ?o) defaultKeys) ''='' = []"
    by (simp add: getTags_def or_else_def defaultKeys_def)
  from C3_id_filters_with_no_tags [OF t s ft fs] e1 e2 t s show ?thesis
    by blast
qed


lemma indexOf_traceId_absent:
  \<open>indexOf [] ''$__span.traceId'' = - 1\<close>
  \<open>indexOf ''{$__tags}'' ''$__span.traceId'' = - 1\<close>
  \<open>indexOf ''{$__tags} |="$__span.id"'' ''$__span.traceId'' = - 1\<close>
  \<open>indexOf ''$__tags'' ''$__span.traceId'' = - 1\<close>
  \<open>indexOf ''$__tags "$__span.id"'' ''$__span.traceId'' = - 1\<close>
  \<open>indexOf '' "$__span.id"'' ''$__span.traceId'' = - 1\<close>
  \<open>indexOf ''"$__span.id" AND $__tags'' ''$__span.traceId'' = - 1\<close>
  \<open>indexOf ''"$__span.id" AND '' ''$__span.traceId'' = - 1\<close>
  by code_simp+

lemma indexOf_spanId_absent:
  \<open>indexOf [] ''$__span.id'' = - 1\<close>
  \<open>indexOf ''{$__tags}'' ''$__span.id'' = - 1\<close>
  \<open>indexOf ''{$__tags} |="$__span.traceId"'' ''$__span.id'' = - 1\<close>
  \<open>indexOf ''$__tags'' ''$__span.id'' = - 1\<close>
  \<open>indexOf ''$__tags "$__span.traceId"'' ''$__span.id'' = - 1\<close>
  \<open>indexOf '' "$__span.traceId"'' ''$__span.id'' = - 1\<close>
  \<open>indexOf ''"$__span.traceId" AND $__tags'' ''$__span.id'' = - 1\<close>
  \<open>indexOf ''"$__span.traceId" AND '' ''$__span.id'' = - 1\<close>
  by code_simp+

lemma getQueryForLoki_id_filters:
  \<open>(indexOf (query_text (qd_query (getQueryForLoki sp options))) ''$__span.traceId'' \<noteq> - 1
         \<longrightarrow> filterByTraceID options = Some True \<and> traceID sp \<noteq> [])
    \<and> (indexOf (query_text (qd_query (getQueryForLoki sp options))) ''$__span.id'' \<noteq> - 1
         \<longrightarrow> filterBySpanID options = Some True \<and> spanID sp \<noteq> [])
    \<and> (traceID sp = [] \<longrightarrow>
           getQueryForLoki sp (options\<lparr>filterByTraceID := Some True\<rparr>)
             = getQueryForLoki sp (options\<lparr>filterByTraceID := None\<rparr>))
    \<and> (spanID sp = [] \<longrightarrow>
           getQueryForLoki sp (options\<lparr>filterBySpanID := Some True\<rparr>)
             = getQueryForLoki sp (options\<lparr>filterBySpanID := None\<rparr>))\<close>
  by (simp add: getQueryForLoki_def truthy_string_def truthy_flag_def Let_def
      indexOf_traceId_absent indexOf_spanId_absent)

lemma getQueryForSplunk_id_filters:
  \<open>(indexOf (query_text (qd_query (getQueryForSplunk sp options))) ''$__span.traceId'' \<noteq> - 1
         \<longrightarrow> filterByTraceID options = Some True \<and> traceID sp \<noteq> [])
    \<and> (indexOf (query_text (qd_query (getQueryForSplunk sp options))) ''$__span.id'' \<noteq> - 1
         \<longrightarrow> filterBySpanID options = Some True \<and> spanID sp \<noteq> [])
    \<and> (traceID sp = [] \<longrightarrow>
           getQueryForSplunk sp (options\<lparr>filterByTraceID := Some True\<rparr>)
             = getQueryForSplunk sp (options\<lparr>filterByTraceID := None\<rparr>))
    \<and> (spanID sp = [] \<longrightarrow>
           getQueryForSplunk sp (options\<lparr>filterBySpanID := Some True\<rparr>)
             = getQueryForSplunk sp (options\<lparr>filterBySpanID := None\<rparr>))\<close>
  by (simp add: getQueryForSplunk_def truthy_string_def truthy_flag_def Let_def
      indexOf_traceId_absent indexOf_spanId_absent)

lemma getQueryForElasticsearchOrOpensearch_id_filters:
  \<open>(indexOf (query_text (qd_query (getQueryForElasticsearchOrOpensearch sp options)))
          ''$__span.traceId'' \<noteq> - 1
         \<longrightarrow> filterByTraceID options = Some True \<and> traceID sp \<noteq> [])
    \<and> (indexOf (query_text (qd_query (getQueryForElasticsearchOrOpensearch sp options)))
          ''$__span.id'' \<noteq> - 1
         \<longrightarrow> filterBySpanID options = Some True \<and> spanID sp \<noteq> [])
    \<and> (traceID sp = [] \<longrightarrow>
           getQueryForElasticsearchOrOpensearch sp (options\<lparr>filterByTraceID := Some True\<rparr>)
             = getQueryForElasticsearchOrOpensearch sp (options\<lparr>filterByTraceID := None\<rparr>))
    \<and> (spanID sp = [] \<longrightarrow>
           getQueryForElasticsearchOrOpensearch sp (options\<lparr>filterBySpanID := Some True\<rparr>)
             = getQueryForElasticsearchOrOpensearch sp (options\<lparr>filterBySpanID := None\<rparr>))\<close>
  by (simp add: getQueryForElasticsearchOrOpensearch_def truthy_string_def truthy_flag_def
      Let_def indexOf_traceId_absent indexOf_spanId_absent)

text \<open>
  Claim C9: in each of the three legacy builders the query text contains the trace ID
  placeholder only if the trace ID filter is on and the span has a trace ID, and the span
  ID placeholder only if the span ID filter is on and the span has a span ID; for a span
  with an empty ID, switching the corresponding filter on changes nothing in the result.
\<close>

theorem C9_id_filter_needs_flag_and_id:
  \<open>\<forall>build \<in> {getQueryForLoki, getQueryForSplunk, getQueryForElasticsearchOrOpensearch}.
      (indexOf (query_text (qd_query (build sp options))) ''$__span.traceId'' \<noteq> - 1
         \<longrightarrow> filterByTraceID options = Some True \<and> traceID sp \<noteq> [])
    \<and> (indexOf (query_text (qd_query (build sp options))) ''$__span.id'' \<noteq> - 1
         \<longrightarrow> filterBySpanID options = Some True \<and> spanID sp \<noteq> [])
    \<and> (traceID sp = [] \<longrightarrow>
           build sp (options\<lparr>filterByTraceID := Some True\<rparr>)
             = build sp (options\<lparr>filterByTraceID := None\<rparr>))
    \<and> (spanID sp = [] \<longrightarrow>
           build sp (options\<lparr>filterBySpanID := Some True\<rparr>)
             = build sp (options\<lparr>filterBySpanID := None\<rparr>))\<close>
  using getQueryForLoki_id_filters [of sp options] getQueryForSplunk_id_filters [of sp options]
    getQueryForElasticsearchOrOpensearch_id_filters [of sp options]
  by blast

theorem C9_id_filter_needs_flag_and_id_witness:
  \<open>traceID (TraceSpan ''7946b05c2e2e4e5a'' [] ''op'' 1500 300
        [\<lparr>kv_key = ''pod'', kv_value = ''p1''\<rparr>]
        \<lparr>serviceName = ''svc'', process_tags = []\<rparr> (Some []) (Some []) None) = []
   \<and> getQueryForLoki
        (TraceSpan ''7946b05c2e2e4e5a'' [] ''op'' 1500 300
          [\<lparr>kv_key = ''pod'', kv_value = ''p1''\<rparr>]
          \<lparr>serviceName = ''svc'', process_tags = []\<rparr> (Some []) (Some []) None)
        (\<lparr>logs_datasourceUid = Some ''loki'', logs_tags = None,
          logs_spanStartTimeShift = None, logs_spanEndTimeShift = None,
          filterByTraceID = None, filterBySpanID = Some True, logs_query = None,
          customQuery = False\<rparr>\<lparr>filterByTraceID := Some True\<rparr>)
     = \<lparr>qd_query = LokiQuery ''{$__tags} |="$__span.id"'' [], qd_tags = ''pod="p1"''\<rparr>
   \<and> indexOf (query_text (qd_query (getQueryForSplunk
        (TraceSpan ''7946b05c2e2e4e5a'' ''6605c7b08e715d6c'' ''op'' 1500 300
          [\<lparr>kv_key = ''pod'', kv_value = ''p1''\<rparr>]
          \<lparr>serviceName = ''svc'', process_tags = []\<rparr> (Some []) (Some []) None)
        \<lparr>logs_datasourceUid = Some ''splunk'', logs_tags = None,
          logs_spanStartTimeShift = None, logs_spanEndTimeShift = None,
          filterByTraceID = Some True, filterBySpanID = None, logs_query = None,
          customQuery = False\<rparr>))) ''$__span.traceId'' = 9
   \<and> traceID (TraceSpan ''7946b05c2e2e4e5a'' ''6605c7b08e715d6c'' ''op'' 1500 300
          [\<lparr>kv_key = ''pod'', kv_value = ''p1''\<rparr>]
          \<lparr>serviceName = ''svc'', process_tags = []\<rparr> (Some []) (Some []) None) \<noteq> []\<close>
proof -
  let ?spE = \<open>TraceSpan ''7946b05c2e2e4e5a'' [] ''op'' 1500 300
        [\<lparr>kv_key = ''pod'', kv_value = ''p1''\<rparr>]
        \<lparr>serviceName = ''svc'', process_tags = []\<rparr> (Some []) (Some []) None\<close>
  let ?oE = \<open>\<lparr>logs_datasourceUid = Some ''loki'', logs_tags = None,
          logs_spanStartTimeShift = None, logs_spanEndTimeShift = None,
          filterByTraceID = None, filterBySpanID = Some True, logs_query = None,
          customQuery = False\<rparr>\<close>
  let ?sp = \<open>TraceSpan ''7946b05c2e2e4e5a'' ''6605c7b08e715d6c'' ''op'' 1500 300
          [\<lparr>kv_key = ''pod'', kv_value = ''p1''\<rparr>]
          \<lparr>serviceName = ''svc'', process_tags = []\<rparr> (Some []) (Some []) None\<close>
  let ?o = \<open>\<lparr>logs_datasourceUid = Some ''splunk'', logs_tags = None,
          logs_spanStartTimeShift = None, logs_spanEndTimeShift = None,
          filterByTraceID = Some True, filterBySpanID = None, logs_query = None,
          customQuery = False\<rparr>\<close>
  have e: "traceID ?spE = []" by simp
  have off: \<open>getQueryForLoki ?spE (?oE\<lparr>filterByTraceID := None\<rparr>)
      = \<lparr>qd_query = LokiQuery ''{$__tags} |="$__span.id"'' [], qd_tags = ''pod="p1"''\<rparr>\<close>
    by (simp add: getQueryForLoki_def getTags_def defaultKeys_def or_else_def
        truthy_string_def truthy_flag_def Let_def)
  have q: \<open>query_text (qd_query (getQueryForSplunk ?sp ?o)) = ''$__tags "$__span.traceId"''\<close>
    by (simp add: getQueryForSplunk_def getTags_def defaultKeys_def or_else_def
        truthy_string_def truthy_flag_def Let_def)
  have i: \<open>indexOf ''$__tags "$__span.traceId"'' ''$__span.traceId'' = 9\<close>
    by code_simp
  have present: \<open>indexOf (query_text (qd_query (getQueryForSplunk ?sp ?o))) ''$__span.traceId'' \<noteq> - 1\<close>
    by (simp only: q i)
  from C9_id_filter_needs_flag_and_id [of ?spE ?oE] e
  have on: \<open>getQueryForLoki ?spE (?oE\<lparr>filterByTraceID := Some True\<rparr>)
      = getQueryForLoki ?spE (?oE\<lparr>filterByTraceID := None\<rparr>)\<close>
    by blast
  from C9_id_filter_needs_flag_and_id [of ?sp ?o] present
  have "traceID ?sp \<noteq> []"
    by blast
  with e on off q i show ?thesis
    by (simp only:) simp
qed

section \<open>Properties of the metrics query\<close>

text \<open>
  Claim C7: with no template (\<open>query.query\<close> undefined, or the empty string, which
  JavaScript treats alike) the metrics query is the default histogram query over the
  span's operation name; a template that is not empty is returned unchanged when no tag is
  configured or when it does not contain the marker \<open>$__tags\<close>.
\<close>

theorem C7_buildMetricsQuery_default_and_noop:
  \<open>(mq_query query = None \<or> mq_query query = Some [] \<longrightarrow>
      buildMetricsQuery query tagsArg sp =
        ''histogram_quantile(0.5, sum(rate(tempo_spanmetrics_latency_bucket{operation="''
          @ operationName sp @ ''"}[5m])) by (le))'')
   \<and> (mq_query query = Some template \<and> template \<noteq> []
        \<and> (tagsArg = None \<or> tagsArg = Some [] \<or> indexOf template ''$__tags'' = - 1) \<longrightarrow>
      buildMetricsQuery query tagsArg sp = template)\<close>
  by (auto simp add: buildMetricsQuery_def or_else_def truthy_string_def Let_def)

theorem C7_buildMetricsQuery_default_and_noop_witness:
  \<open>buildMetricsQuery \<lparr>mq_name = Some ''latency'', mq_query = None\<rparr>
       (Some [\<lparr>map_key = ''pod'', map_value = None\<rparr>])
       (TraceSpan ''7946b05c2e2e4e5a'' ''6605c7b08e715d6c'' ''checkout'' 1500 300
          [\<lparr>kv_key = ''pod'', kv_value = ''p1''\<rparr>]
          \<lparr>serviceName = ''svc'', process_tags = []\<rparr> (Some []) (Some []) None)
     = ''histogram_quantile(0.5, sum(rate(tempo_spanmetrics_latency_bucket{operation="checkout"}[5m])) by (le))''
   \<and> indexOf ''rate(requests_total[5m])'' ''$__tags'' = - 1
   \<and> buildMetricsQuery \<lparr>mq_name = Some ''rate'', mq_query = Some ''rate(requests_total[5m])''\<rparr>
       (Some [\<lparr>map_key = ''pod'', map_value = None\<rparr>])
       (TraceSpan ''7946b05c2e2e4e5a'' ''6605c7b08e715d6c'' ''checkout'' 1500 300
          [\<lparr>kv_key = ''pod'', kv_value = ''p1''\<rparr>]
          \<lparr>serviceName = ''svc'', process_tags = []\<rparr> (Some []) (Some []) None)
     = ''rate(requests_total[5m])''
   \<and> buildMetricsQuery \<lparr>mq_name = Some ''rate'', mq_query = Some ''rate(requests_total{$__tags}[5m])''\<rparr>
       (Some [])
       (TraceSpan ''7946b05c2e2e4e5a'' ''6605c7b08e715d6c'' ''checkout'' 1500 300
          [\<lparr>kv_key = ''pod'', kv_value = ''p1''\<rparr>]
          \<lparr>serviceName = ''svc'', process_tags = []\<rparr> (Some []) (Some []) None)
     = ''rate(requests_total{$__tags}[5m])''\<close>
proof -
  let ?sp = \<open>TraceSpan ''7946b05c2e2e4e5a'' ''6605c7b08e715d6c'' ''checkout'' 1500 300
          [\<lparr>kv_key = ''pod'', kv_value = ''p1''\<rparr>]
          \<lparr>serviceName = ''svc'', process_tags = []\<rparr> (Some []) (Some []) None\<close>
  let ?tags = \<open>Some [\<lparr>map_key = ''pod'', map_value = None\<rparr>]\<close>
  have i: \<open>indexOf ''rate(requests_total[5m])'' ''$__tags'' = - 1\<close>
    by code_simp
  have a: \<open>buildMetricsQuery \<lparr>mq_name = Some ''latency'', mq_query = None\<rparr> ?tags ?sp
      = ''histogram_quantile(0.5, sum(rate(tempo_spanmetrics_latency_bucket{operation="''
          @ operationName ?sp @ ''"}[5m])) by (le))''\<close>
    using C7_buildMetricsQuery_default_and_noop
      [of \<open>\<lparr>mq_name = Some ''latency'', mq_query = None\<rparr>\<close> ?tags ?sp]
    by simp
  have b: \<open>buildMetricsQuery \<lparr>mq_name = Some ''rate'', mq_query = Some ''rate(requests_total[5m])''\<rparr>
      ?tags ?sp = ''rate(requests_total[5m])''\<close>
    using C7_buildMetricsQuery_default_and_noop
      [of \<open>\<lparr>mq_name = Some ''rate'', mq_query = Some ''rate(requests_total[5m])''\<rparr>\<close>
          ?tags ?sp \<open>''rate(requests_total[5m])''\<close>] i
    by simp
  have c: \<open>buildMetricsQuery
      \<lparr>mq_name = Some ''rate'', mq_query = Some ''rate(requests_total{$__tags}[5m])''\<rparr>
      (Some []) ?sp = ''rate(requests_total{$__tags}[5m])''\<close>
    using C7_buildMetricsQuery_default_and_noop
      [of \<open>\<lparr>mq_name = Some ''rate'', mq_query = Some ''rate(requests_total{$__tags}[5m])''\<rparr>\<close>
          \<open>Some []\<close> ?sp \<open>''rate(requests_total{$__tags}[5m])''\<close>]
    by simp
  from a b c i show ?thesis
    by simp
qed

section \<open>Properties of the link factory\<close>

lemma references_loop_filter:
  "references_loop f refs acc =
     acc @ map (referenceLink f) (filter (\<lambda>r. refType r \<noteq> ''CHILD_OF'') refs)"
  by (induction refs arbitrary: acc) simp_all

lemma subsidiary_loop_map:
  "subsidiary_loop f refs acc = acc @ map (referenceLink f) refs"
  by (induction refs arbitrary: acc) simp_all

lemma legacy_logs_link_Normal:
  assumes "\<forall>opts e. traceToLogsOptions = Some opts \<longrightarrow>
               shiftMs env (logs_spanStartTimeShift opts) \<noteq> Throw e
             \<and> shiftMs env (logs_spanEndTimeShift opts) \<noteq> Throw e"
  shows "\<exists>links1. fst (legacy_logs_link env ds traceToLogsOptions scopedVars sp links) = Normal links1
           \<and> traceLinks links1 = traceLinks links"
proof (cases "logsDataSourceSettings ds")
  case None
  then show ?thesis
    by (simp add: legacy_logs_link_def)
next
  case (Some logsDs)
  show ?thesis
  proof (cases traceToLogsOptions)
    case None
    with Some show ?thesis
      by (simp add: legacy_logs_link_def)
  next
    case (Some opts)
    from assms Some obtain a b
      where "shiftMs env (logs_spanStartTimeShift opts) = Normal a"
        and "shiftMs env (logs_spanEndTimeShift opts) = Normal b"
      by (metis completion.exhaust)
    with Some \<open>logsDataSourceSettings ds = Some logsDs\<close> show ?thesis
      by (simp add: legacy_logs_link_def Let_def)
  qed
qed

lemma legacy_metrics_loop_Normal:
  assumes "\<forall>e. shiftMs env (metrics_spanStartTimeShift opts) \<noteq> Throw e"
    and "\<forall>e. shiftMs env (metrics_spanEndTimeShift opts) \<noteq> Throw e"
  shows "\<exists>out. legacy_metrics_loop env metricsDs opts sp queries acc = Normal out"
proof -
  from assms obtain a b
    where a: "shiftMs env (metrics_spanStartTimeShift opts) = Normal a"
      and b: "shiftMs env (metrics_spanEndTimeShift opts) = Normal b"
    by (metis completion.exhaust)
  show ?thesis
    by (induction queries arbitrary: acc) (simp_all add: a b Let_def)
qed

lemma legacy_metrics_links_Normal:
  assumes "\<forall>opts e. traceToMetricsOptions = Some opts \<longrightarrow>
               shiftMs env (metrics_spanStartTimeShift opts) \<noteq> Throw e
             \<and> shiftMs env (metrics_spanEndTimeShift opts) \<noteq> Throw e"
  shows "\<exists>links2. legacy_metrics_links env ds traceToMetricsOptions sp links = Normal links2
           \<and> traceLinks links2 = traceLinks links"
proof (cases "metricsDataSourceSettings ds")
  case None
  then show ?thesis
    by (simp add: legacy_metrics_links_def)
next
  case (Some metricsDs)
  show ?thesis
  proof (cases traceToMetricsOptions)
    case None
    with Some show ?thesis
      by (simp add: legacy_metrics_links_def)
  next
    case opts: (Some opts)
    show ?thesis
    proof (cases "metrics_queries opts")
      case None
      with Some opts show ?thesis
        by (simp add: legacy_metrics_links_def)
    next
      case (Some queries)
      from assms opts
      have "\<forall>e. shiftMs env (metrics_spanStartTimeShift opts) \<noteq> Throw e"
        and "\<forall>e. shiftMs env (metrics_spanEndTimeShift opts) \<noteq> Throw e"
        by simp_all
      from legacy_metrics_loop_Normal [OF this, of metricsDs sp queries "[]"]
      obtain out where "legacy_metrics_loop env metricsDs opts sp queries [] = Normal out"
        by blast
      with Some opts \<open>metricsDataSourceSettings ds = Some metricsDs\<close> show ?thesis
        by (simp add: legacy_metrics_links_def)
    qed
  qed
qed

lemma legacy_trace_links_Some:
  "traceLinks links = Some acc \<Longrightarrow>
   traceLinks (legacy_trace_links (Some f) sp links) =
     Some (acc @ map (referenceLink f)
                   (filter (\<lambda>r. refType r \<noteq> ''CHILD_OF'') (or_else (references sp) []))
               @ map (referenceLink f) (or_else (subsidiarilyReferencedBy sp) []))"
  by (simp add: legacy_trace_links_def Let_def or_else_def references_loop_filter
      subsidiary_loop_map split: option.splits)

lemma legacy_trace_links_None:
  "traceLinks (legacy_trace_links None sp links) = traceLinks links"
  by (simp add: legacy_trace_links_def Let_def split: option.splits)

text \<open>
  The trace links of a span in legacy mode, when the interval parser accepts the
  configured shifts, so that neither the logs nor the metrics block throws: \<open>SpanLink\<close>
  returns, and with a \<open>createFocusSpanLink\<close> callback its trace links are the links of the
  references that are not parent-child, then the links of all subsidiary back-references.
\<close>

lemma legacy_SpanLink_traceLinks:
  assumes logs: "\<forall>opts e. traceToLogsOptions = Some opts \<longrightarrow>
               shiftMs env (logs_spanStartTimeShift opts) \<noteq> Throw e
             \<and> shiftMs env (logs_spanEndTimeShift opts) \<noteq> Throw e"
    and metrics: "\<forall>opts e. traceToMetricsOptions = Some opts \<longrightarrow>
               shiftMs env (metrics_spanStartTimeShift opts) \<noteq> Throw e
             \<and> shiftMs env (metrics_spanEndTimeShift opts) \<noteq> Throw e"
  shows "\<exists>links. fst (legacy_SpanLink env ds traceToLogsOptions traceToMetricsOptions
                    (Some f) scopedVars sp) = Normal links
           \<and> traceLinks links =
               Some (map (referenceLink f)
                       (filter (\<lambda>r. refType r \<noteq> ''CHILD_OF'') (or_else (references sp) []))
                     @ map (referenceLink f) (or_else (subsidiarilyReferencedBy sp) []))"
proof -
  let ?links0 = "\<lparr>logLinks = None, metricLinks = None, traceLinks = Some []\<rparr> :: 'a span_links"
  let ?sv = "spread scopedVars (scopedVarsFromSpan sp)"
  from legacy_logs_link_Normal [OF logs, of ds ?sv sp ?links0]
  obtain links1 where l1: "fst (legacy_logs_link env ds traceToLogsOptions ?sv sp ?links0) = Normal links1"
    and t1: "traceLinks links1 = Some []"
    by auto
  from legacy_metrics_links_Normal [OF metrics, of ds sp links1]
  obtain links2 where l2: "legacy_metrics_links env ds traceToMetricsOptions sp links1 = Normal links2"
    and t2: "traceLinks links2 = Some []"
    using t1 by auto
  obtain sv2 where p: "legacy_logs_link env ds traceToLogsOptions ?sv sp ?links0 = (Normal links1, sv2)"
    using l1 by (cases "legacy_logs_link env ds traceToLogsOptions ?sv sp ?links0") simp
  have "fst (legacy_SpanLink env ds traceToLogsOptions traceToMetricsOptions (Some f) scopedVars sp)
          = Normal (legacy_trace_links (Some f) sp links2)"
    by (simp add: legacy_SpanLink_def Let_def p l2)
  with legacy_trace_links_Some [OF t2, of f sp] show ?thesis
    by simp
qed

text \<open>
  A shift that the parser rejects makes the call throw as soon as the logs block makes a
  link: no links are returned, whatever the references of the span.
\<close>

lemma legacy_SpanLink_throws_on_rejected_shift:
  assumes "logsDataSourceSettings ds = Some logsDs" and "traceToLogsOptions = Some opts"
    and "customQuery opts" and "shiftMs env (logs_spanStartTimeShift opts) = Throw error"
  shows "fst (legacy_SpanLink env ds traceToLogsOptions traceToMetricsOptions
                createFocusSpanLink scopedVars sp) = Throw error"
  using assms by (simp add: legacy_SpanLink_def legacy_logs_link_def Let_def)

text \<open>
  Claim C6 says that legacy mode gives one trace link for each reference that is not
  parent-child. Without the optional \<open>createFocusSpanLink\<close> callback a span with a
  \<open>FOLLOWS_FROM\<close> reference gets no trace link; and with the callback, but an end shift
  \<open>abc\<close> that the interval parser rejects, the call throws in the logs block and returns no
  link at all.
\<close>

theorem C6_no_callback_or_rejected_shift_counterexample:
  "fst (legacy_SpanLink
        \<lparr>getInstanceSettings = (\<lambda>uid. None),
          intervalToMs = (\<lambda>s. if s = ''1h'' then Inr 3600000
                              else Inl (Error ''Invalid interval string'')),
          mapInternalLinkToExplore = (\<lambda>a. \<lparr>lm_href = ''/explore'', lm_onClick = ()\<rparr>),
          getFieldLinksForExplore = (\<lambda>a. Inr [])\<rparr>
        \<lparr>logsDataSourceSettings =
            Some \<lparr>ds_type = ''loki'', ds_name = ''Loki'', ds_uid = ''loki1''\<rparr>,
          isSplunkDS = False, metricsDataSourceSettings = None\<rparr>
        (Some \<lparr>logs_datasourceUid = Some ''loki1'', logs_tags = None,
                logs_spanStartTimeShift = None, logs_spanEndTimeShift = Some ''1h'',
                filterByTraceID = None, filterBySpanID = None, logs_query = None,
                customQuery = False\<rparr>)
        None
        None []
        (TraceSpan ''s1'' ''t1'' ''op'' 1500 300
          [\<lparr>kv_key = ''pod'', kv_value = ''p1''\<rparr>]
          \<lparr>serviceName = ''svc'', process_tags = []\<rparr>
          (Some [TraceSpanReference ''CHILD_OF'' None ''s0'' ''t1'',
                 TraceSpanReference ''FOLLOWS_FROM'' None ''s7'' ''t2''])
          (Some [TraceSpanReference ''CHILD_OF'' None ''s9'' ''t3''])
          None))
     = Normal \<lparr>logLinks = Some [\<lparr>href = ''/explore'', onClick = (),
                content = \<lparr>icon_name = ''gf-logs'',
                  icon_title = ''Explore the logs for this in split view''\<rparr>,
                title = None\<rparr>],
               metricLinks = None, traceLinks = Some []\<rparr>
   \<and> fst (legacy_SpanLink
        \<lparr>getInstanceSettings = (\<lambda>uid. None),
          intervalToMs = (\<lambda>s. if s = ''1h'' then Inr 3600000
                              else Inl (Error ''Invalid interval string'')),
          mapInternalLinkToExplore = (\<lambda>a. \<lparr>lm_href = ''/explore'', lm_onClick = ()\<rparr>),
          getFieldLinksForExplore = (\<lambda>a. Inr [])\<rparr>
        \<lparr>logsDataSourceSettings =
            Some \<lparr>ds_type = ''loki'', ds_name = ''Loki'', ds_uid = ''loki1''\<rparr>,
          isSplunkDS = False, metricsDataSourceSettings = None\<rparr>
        (Some \<lparr>logs_datasourceUid = Some ''loki1'', logs_tags = None,
                logs_spanStartTimeShift = None, logs_spanEndTimeShift = Some ''abc'',
                filterByTraceID = None, filterBySpanID = None, logs_query = None,
                customQuery = False\<rparr>)
        None
        (Some (\<lambda>t s. \<lparr>lm_href = t @ ''/'' @ s, lm_onClick = ()\<rparr>)) []
        (TraceSpan ''s1'' ''t1'' ''op'' 1500 300
          [\<lparr>kv_key = ''pod'', kv_value = ''p1''\<rparr>]
          \<lparr>serviceName = ''svc'', process_tags = []\<rparr>
          (Some [TraceSpanReference ''CHILD_OF'' None ''s0'' ''t1'',
                 TraceSpanReference ''FOLLOWS_FROM'' None ''s7'' ''t2''])
          (Some [TraceSpanReference ''CHILD_OF'' None ''s9'' ''t3''])
          None))
     = Throw (Error ''Invalid interval string'')"
  by (simp add: legacy_SpanLink_def legacy_logs_link_def legacy_metrics_links_def
      legacy_trace_links_def shiftMs_def getQueryForLoki_def getTags_def defaultKeys_def
      or_else_def truthy_string_def truthy_flag_def Let_def)

text \<open>
  Claim C6, amended: in legacy mode, when the \<open>createFocusSpanLink\<close> callback is supplied
  and the interval parser accepts every time shift configured in the trace-to-logs and
  trace-to-metrics options, \<open>SpanLink\<close> returns, and the references of the span give one
  trace link for each reference whose type is not \<open>CHILD_OF\<close>, in the order of the list,
  and no link for a \<open>CHILD_OF\<close> reference; these links come first among the trace links,
  before those of the subsidiary back-references.
\<close>

theorem C6_trace_links_skip_child_of:
  assumes "createFocusSpanLink = Some f" and "references sp = Some refs"
    and "\<forall>opts e. traceToLogsOptions = Some opts \<longrightarrow>
               shiftMs env (logs_spanStartTimeShift opts) \<noteq> Throw e
             \<and> shiftMs env (logs_spanEndTimeShift opts) \<noteq> Throw e"
    and "\<forall>opts e. traceToMetricsOptions = Some opts \<longrightarrow>
               shiftMs env (metrics_spanStartTimeShift opts) \<noteq> Throw e
             \<and> shiftMs env (metrics_spanEndTimeShift opts) \<noteq> Throw e"
  shows "\<exists>links. fst (legacy_SpanLink env ds traceToLogsOptions traceToMetricsOptions
                    createFocusSpanLink scopedVars sp) = Normal links
           \<and> traceLinks links =
               Some (map (referenceLink f) (filter (\<lambda>r. refType r \<noteq> ''CHILD_OF'') refs)
                     @ map (referenceLink f) (or_else (subsidiarilyReferencedBy sp) []))"
  using legacy_SpanLink_traceLinks [OF assms(3,4), of ds f scopedVars sp] assms(1,2)
  by (simp add: or_else_def)

theorem C6_trace_links_skip_child_of_witness:
  "references (TraceSpan ''s1'' ''t1'' ''op'' 1500 300
          [\<lparr>kv_key = ''pod'', kv_value = ''p1''\<rparr>]
          \<lparr>serviceName = ''svc'', process_tags = []\<rparr>
          (Some [TraceSpanReference ''CHILD_OF'' None ''s0'' ''t1'',
                 TraceSpanReference ''FOLLOWS_FROM'' None ''s7'' ''t2''])
          (Some [TraceSpanReference ''CHILD_OF'' None ''s9'' ''t3''])
          None)
     = Some [TraceSpanReference ''CHILD_OF'' None ''s0'' ''t1'',
                 TraceSpanReference ''FOLLOWS_FROM'' None ''s7'' ''t2'']
   \<and> (\<exists>links. fst (legacy_SpanLink
        \<lparr>getInstanceSettings = (\<lambda>uid. None),
          intervalToMs = (\<lambda>s. if s = ''1h'' then Inr 3600000
                              else Inl (Error ''Invalid interval string'')),
          mapInternalLinkToExplore = (\<lambda>a. \<lparr>lm_href = ''/explore'', lm_onClick = ()\<rparr>),
          getFieldLinksForExplore = (\<lambda>a. Inr [])\<rparr>
        \<lparr>logsDataSourceSettings =
            Some \<lparr>ds_type = ''loki'', ds_name = ''Loki'', ds_uid = ''loki1''\<rparr>,
          isSplunkDS = False, metricsDataSourceSettings = None\<rparr>
        (Some \<lparr>logs_datasourceUid = Some ''loki1'', logs_tags = None,
                logs_spanStartTimeShift = None, logs_spanEndTimeShift = Some ''1h'',
                filterByTraceID = None, filterBySpanID = None, logs_query = None,
                customQuery = False\<rparr>)
        None
        (Some (\<lambda>t s. \<lparr>lm_href = t @ ''/'' @ s, lm_onClick = ()\<rparr>)) []
        (TraceSpan ''s1'' ''t1'' ''op'' 1500 300
          [\<lparr>kv_key = ''pod'', kv_value = ''p1''\<rparr>]
          \<lparr>serviceName = ''svc'', process_tags = []\<rparr>
          (Some [TraceSpanReference ''CHILD_OF'' None ''s0'' ''t1'',
                 TraceSpanReference ''FOLLOWS_FROM'' None ''s7'' ''t2''])
          (Some [TraceSpanReference ''CHILD_OF'' None ''s9'' ''t3''])
          None)) = Normal links
        \<and> traceLinks links
             = Some [\<lparr>href = ''t2/s7'', onClick = (),
                content = \<lparr>icon_name = ''link'', icon_title = ''View linked span''\<rparr>,
                title = Some ''View linked span''\<rparr>,
                     \<lparr>href = ''t3/s9'', onClick = (),
                content = \<lparr>icon_name = ''link'', icon_title = ''View linked span''\<rparr>,
                title = Some ''View linked span''\<rparr>])"
proof -
  let ?f = "(\<lambda>t s. \<lparr>lm_href = t @ ''/'' @ s, lm_onClick = ()\<rparr>)"
  let ?sp = "(TraceSpan ''s1'' ''t1'' ''op'' 1500 300
          [\<lparr>kv_key = ''pod'', kv_value = ''p1''\<rparr>]
          \<lparr>serviceName = ''svc'', process_tags = []\<rparr>
          (Some [TraceSpanReference ''CHILD_OF'' None ''s0'' ''t1'',
                 TraceSpanReference ''FOLLOWS_FROM'' None ''s7'' ''t2''])
          (Some [TraceSpanReference ''CHILD_OF'' None ''s9'' ''t3''])
          None)"
  let ?env = "\<lparr>getInstanceSettings = (\<lambda>uid. None),
          intervalToMs = (\<lambda>s. if s = ''1h'' then Inr 3600000
                              else Inl (Error ''Invalid interval string'')),
          mapInternalLinkToExplore = (\<lambda>a. \<lparr>lm_href = ''/explore'', lm_onClick = ()\<rparr>),
          getFieldLinksForExplore = (\<lambda>a. Inr [])\<rparr>"
  let ?opts = "\<lparr>logs_datasourceUid = Some ''loki1'', logs_tags = None,
                logs_spanStartTimeShift = None, logs_spanEndTimeShift = Some ''1h'',
                filterByTraceID = None, filterBySpanID = None, logs_query = None,
                customQuery = False\<rparr>"
  have c: "Some ?f = Some ?f"
    by simp
  have r: "references ?sp = Some [TraceSpanReference ''CHILD_OF'' None ''s0'' ''t1'',
                 TraceSpanReference ''FOLLOWS_FROM'' None ''s7'' ''t2'']"
    by simp
  have lo: "\<forall>opts e. Some ?opts = Some opts \<longrightarrow>
               shiftMs ?env (logs_spanStartTimeShift opts) \<noteq> Throw e
             \<and> shiftMs ?env (logs_spanEndTimeShift opts) \<noteq> Throw e"
    by (simp add: shiftMs_def or_else_def truthy_string_def)
  have me: "\<forall>opts e. (None :: trace_to_metrics_options option) = Some opts \<longrightarrow>
               shiftMs ?env (metrics_spanStartTimeShift opts) \<noteq> Throw e
             \<and> shiftMs ?env (metrics_spanEndTimeShift opts) \<noteq> Throw e"
    by simp
  from C6_trace_links_skip_child_of [OF c r lo me, of "\<lparr>logsDataSourceSettings =
            Some \<lparr>ds_type = ''loki'', ds_name = ''Loki'', ds_uid = ''loki1''\<rparr>,
          isSplunkDS = False, metricsDataSourceSettings = None\<rparr>" "[]"]
  obtain links where
    "fst (legacy_SpanLink
        \<lparr>getInstanceSettings = (\<lambda>uid. None),
          intervalToMs = (\<lambda>s. if s = ''1h'' then Inr 3600000
                              else Inl (Error ''Invalid interval string'')),
          mapInternalLinkToExplore = (\<lambda>a. \<lparr>lm_href = ''/explore'', lm_onClick = ()\<rparr>),
          getFieldLinksForExplore = (\<lambda>a. Inr [])\<rparr>
        \<lparr>logsDataSourceSettings =
            Some \<lparr>ds_type = ''loki'', ds_name = ''Loki'', ds_uid = ''loki1''\<rparr>,
          isSplunkDS = False, metricsDataSourceSettings = None\<rparr>
        (Some \<lparr>logs_datasourceUid = Some ''loki1'', logs_tags = None,
                logs_spanStartTimeShift = None, logs_spanEndTimeShift = Some ''1h'',
                filterByTraceID = None, filterBySpanID = None, logs_query = None,
                customQuery = False\<rparr>)
        None
        (Some (\<lambda>t s. \<lparr>lm_href = t @ ''/'' @ s, lm_onClick = ()\<rparr>)) []
        (TraceSpan ''s1'' ''t1'' ''op'' 1500 300
          [\<lparr>kv_key = ''pod'', kv_value = ''p1''\<rparr>]
          \<lparr>serviceName = ''svc'', process_tags = []\<rparr>
          (Some [TraceSpanReference ''CHILD_OF'' None ''s0'' ''t1'',
                 TraceSpanReference ''FOLLOWS_FROM'' None ''s7'' ''t2''])
          (Some [TraceSpanReference ''CHILD_OF'' None ''s9'' ''t3''])
          None)) = Normal links"
    and "traceLinks links =
           Some (map (referenceLink ?f) (filter (\<lambda>r. refType r \<noteq> ''CHILD_OF'') [TraceSpanReference ''CHILD_OF'' None ''s0'' ''t1'',
                 TraceSpanReference ''FOLLOWS_FROM'' None ''s7'' ''t2''])
                 @ map (referenceLink ?f) (or_else (subsidiarilyReferencedBy ?sp) []))"
    by blast
  then show ?thesis
    by (simp add: referenceLink_def or_else_def)
qed

text \<open>
  Claim C10 says that every subsidiary back-reference gives a trace link. Without the
  optional \<open>createFocusSpanLink\<close> callback a span with a subsidiary back-reference gets no
  trace link; and with the callback, but an end shift \<open>abc\<close> that the interval parser
  rejects, the call throws in the logs block and returns no link at all.
\<close>

theorem C10_no_callback_or_rejected_shift_counterexample:
  "fst (legacy_SpanLink
        \<lparr>getInstanceSettings = (\<lambda>uid. None),
          intervalToMs = (\<lambda>s. if s = ''1h'' then Inr 3600000
                              else Inl (Error ''Invalid interval string'')),
          mapInternalLinkToExplore = (\<lambda>a. \<lparr>lm_href = ''/explore'', lm_onClick = ()\<rparr>),
          getFieldLinksForExplore = (\<lambda>a. Inr [])\<rparr>
        \<lparr>logsDataSourceSettings =
            Some \<lparr>ds_type = ''loki'', ds_name = ''Loki'', ds_uid = ''loki1''\<rparr>,
          isSplunkDS = False, metricsDataSourceSettings = None\<rparr>
        (Some \<lparr>logs_datasourceUid = Some ''loki1'', logs_tags = None,
                logs_spanStartTimeShift = None, logs_spanEndTimeShift = Some ''1h'',
                filterByTraceID = None, filterBySpanID = None, logs_query = None,
                customQuery = False\<rparr>)
        None
        None []
        (TraceSpan ''s2'' ''t1'' ''op'' 1500 300
          [\<lparr>kv_key = ''pod'', kv_value = ''p1''\<rparr>]
          \<lparr>serviceName = ''svc'', process_tags = []\<rparr>
          (Some [TraceSpanReference ''CHILD_OF'' None ''s0'' ''t1'',
                 TraceSpanReference ''FOLLOWS_FROM'' None ''s7'' ''t2''])
          (Some [TraceSpanReference ''CHILD_OF'' None ''s9'' ''t3''])
          None))
     = Normal \<lparr>logLinks = Some [\<lparr>href = ''/explore'', onClick = (),
                content = \<lparr>icon_name = ''gf-logs'',
                  icon_title = ''Explore the logs for this in split view''\<rparr>,
                title = None\<rparr>],
               metricLinks = None, traceLinks = Some []\<rparr>
   \<and> fst (legacy_SpanLink
        \<lparr>getInstanceSettings = (\<lambda>uid. None),
          intervalToMs = (\<lambda>s. if s = ''1h'' then Inr 3600000
                              else Inl (Error ''Invalid interval string'')),
          mapInternalLinkToExplore = (\<lambda>a. \<lparr>lm_href = ''/explore'', lm_onClick = ()\<rparr>),
          getFieldLinksForExplore = (\<lambda>a. Inr [])\<rparr>
        \<lparr>logsDataSourceSettings =
            Some \<lparr>ds_type = ''loki'', ds_name = ''Loki'', ds_uid = ''loki1''\<rparr>,
          isSplunkDS = False, metricsDataSourceSettings = None\<rparr>
        (Some \<lparr>logs_datasourceUid = Some ''loki1'', logs_tags = None,
                logs_spanStartTimeShift = None, logs_spanEndTimeShift = Some ''abc'',
                filterByTraceID = None, filterBySpanID = None, logs_query = None,
                customQuery = False\<rparr>)
        None
        (Some (\<lambda>t s. \<lparr>lm_href = t @ ''/'' @ s, lm_onClick = ()\<rparr>)) []
        (TraceSpan ''s2'' ''t1'' ''op'' 1500 300
          [\<lparr>kv_key = ''pod'', kv_value = ''p1''\<rparr>]
          \<lparr>serviceName = ''svc'', process_tags = []\<rparr>
          (Some [TraceSpanReference ''CHILD_OF'' None ''s0'' ''t1'',
                 TraceSpanReference ''FOLLOWS_FROM'' None ''s7'' ''t2''])
          (Some [TraceSpanReference ''CHILD_OF'' None ''s9'' ''t3''])
          None))
     = Throw (Error ''Invalid interval string'')"
  by (simp add: legacy_SpanLink_def legacy_logs_link_def legacy_metrics_links_def
      legacy_trace_links_def shiftMs_def getQueryForLoki_def getTags_def defaultKeys_def
      or_else_def truthy_string_def truthy_flag_def Let_def)

text \<open>
  Claim C10, amended: in legacy mode, when the \<open>createFocusSpanLink\<close> callback is supplied
  and the interval parser accepts every time shift configured in the trace-to-logs and
  trace-to-metrics options, \<open>SpanLink\<close> returns, and every subsidiary back-reference of the
  span gives a trace link, whatever its type: the trace links are those of the forward
  references that are not \<open>CHILD_OF\<close>, followed by one link for each entry of
  \<open>subsidiarilyReferencedBy\<close>, in order.
\<close>

theorem C10_subsidiary_links_unfiltered:
  assumes "createFocusSpanLink = Some f" and "subsidiarilyReferencedBy sp = Some subs"
    and "\<forall>opts e. traceToLogsOptions = Some opts \<longrightarrow>
               shiftMs env (logs_spanStartTimeShift opts) \<noteq> Throw e
             \<and> shiftMs env (logs_spanEndTimeShift opts) \<noteq> Throw e"
    and "\<forall>opts e. traceToMetricsOptions = Some opts \<longrightarrow>
               shiftMs env (metrics_spanStartTimeShift opts) \<noteq> Throw e
             \<and> shiftMs env (metrics_spanEndTimeShift opts) \<noteq> Throw e"
  shows "\<exists>links tl. fst (legacy_SpanLink env ds traceToLogsOptions traceToMetricsOptions
                       createFocusSpanLink scopedVars sp) = Normal links
           \<and> traceLinks links = Some tl
           \<and> length tl =
               length (filter (\<lambda>r. refType r \<noteq> ''CHILD_OF'') (or_else (references sp) []))
                 + length subs
           \<and> drop (length (filter (\<lambda>r. refType r \<noteq> ''CHILD_OF'') (or_else (references sp) [])))
                tl = map (referenceLink f) subs
           \<and> (\<forall>r \<in> set subs. referenceLink f r \<in> set tl)"
proof -
  from legacy_SpanLink_traceLinks [OF assms(3,4), of ds f scopedVars sp] assms(1,2)
  obtain links where
    "fst (legacy_SpanLink env ds traceToLogsOptions traceToMetricsOptions
            createFocusSpanLink scopedVars sp) = Normal links"
    and "traceLinks links =
           Some (map (referenceLink f)
                   (filter (\<lambda>r. refType r \<noteq> ''CHILD_OF'') (or_else (references sp) []))
                 @ map (referenceLink f) subs)"
    by (auto simp add: or_else_def)
  then show ?thesis
    by simp
qed

theorem C10_subsidiary_links_unfiltered_witness:
  "subsidiarilyReferencedBy (TraceSpan ''s2'' ''t1'' ''op'' 1500 300
          [\<lparr>kv_key = ''pod'', kv_value = ''p1''\<rparr>]
          \<lparr>serviceName = ''svc'', process_tags = []\<rparr>
          (Some [TraceSpanReference ''CHILD_OF'' None ''s0'' ''t1'',
                 TraceSpanReference ''FOLLOWS_FROM'' None ''s7'' ''t2''])
          (Some [TraceSpanReference ''CHILD_OF'' None ''s9'' ''t3''])
          None)
     = Some [TraceSpanReference ''CHILD_OF'' None ''s9'' ''t3'']
   \<and> (\<exists>links tl. fst (legacy_SpanLink
        \<lparr>getInstanceSettings = (\<lambda>uid. None),
          intervalToMs = (\<lambda>s. if s = ''1h'' then Inr 3600000
                              else Inl (Error ''Invalid interval string'')),
          mapInternalLinkToExplore = (\<lambda>a. \<lparr>lm_href = ''/explore'', lm_onClick = ()\<rparr>),
          getFieldLinksForExplore = (\<lambda>a. Inr [])\<rparr>
        \<lparr>logsDataSourceSettings =
            Some \<lparr>ds_type = ''loki'', ds_name = ''Loki'', ds_uid = ''loki1''\<rparr>,
          isSplunkDS = False, metricsDataSourceSettings = None\<rparr>
        (Some \<lparr>logs_datasourceUid = Some ''loki1'', logs_tags = None,
                logs_spanStartTimeShift = None, logs_spanEndTimeShift = Some ''1h'',
                filterByTraceID = None, filterBySpanID = None, logs_query = None,
                customQuery = False\<rparr>)
        None
        (Some (\<lambda>t s. \<lparr>lm_href = t @ ''/'' @ s, lm_onClick = ()\<rparr>)) []
        (TraceSpan ''s2'' ''t1'' ''op'' 1500 300
          [\<lparr>kv_key = ''pod'', kv_value = ''p1''\<rparr>]
          \<lparr>serviceName = ''svc'', process_tags = []\<rparr>
          (Some [TraceSpanReference ''CHILD_OF'' None ''s0'' ''t1'',
                 TraceSpanReference ''FOLLOWS_FROM'' None ''s7'' ''t2''])
          (Some [TraceSpanReference ''CHILD_OF'' None ''s9'' ''t3''])
          None)) = Normal links
        \<and> traceLinks links = Some tl
        \<and> length tl = 2
        \<and> drop 1 tl = [\<lparr>href = ''t3/s9'', onClick = (),
                content = \<lparr>icon_name = ''link'', icon_title = ''View linked span''\<rparr>,
                title = Some ''View linked span''\<rparr>])"
proof -
  let ?f = "(\<lambda>t s. \<lparr>lm_href = t @ ''/'' @ s, lm_onClick = ()\<rparr>)"
  let ?sp = "(TraceSpan ''s2'' ''t1'' ''op'' 1500 300
          [\<lparr>kv_key = ''pod'', kv_value = ''p1''\<rparr>]
          \<lparr>serviceName = ''svc'', process_tags = []\<rparr>
          (Some [TraceSpanReference ''CHILD_OF'' None ''s0'' ''t1'',
                 TraceSpanReference ''FOLLOWS_FROM'' None ''s7'' ''t2''])
          (Some [TraceSpanReference ''CHILD_OF'' None ''s9'' ''t3''])
          None)"
  let ?env = "\<lparr>getInstanceSettings = (\<lambda>uid. None),
          intervalToMs = (\<lambda>s. if s = ''1h'' then Inr 3600000
                              else Inl (Error ''Invalid interval string'')),
          mapInternalLinkToExplore = (\<lambda>a. \<lparr>lm_href = ''/explore'', lm_onClick = ()\<rparr>),
          getFieldLinksForExplore = (\<lambda>a. Inr [])\<rparr>"
  let ?opts = "\<lparr>logs_datasourceUid = Some ''loki1'', logs_tags = None,
                logs_spanStartTimeShift = None, logs_spanEndTimeShift = Some ''1h'',
                filterByTraceID = None, filterBySpanID = None, logs_query = None,
                customQuery = False\<rparr>"
  have c: "Some ?f = Some ?f"
    by simp
  have s: "subsidiarilyReferencedBy ?sp = Some [TraceSpanReference ''CHILD_OF'' None ''s9'' ''t3'']"
    by simp
  have lo: "\<forall>opts e. Some ?opts = Some opts \<longrightarrow>
               shiftMs ?env (logs_spanStartTimeShift opts) \<noteq> Throw e
             \<and> shiftMs ?env (logs_spanEndTimeShift opts) \<noteq> Throw e"
    by (simp add: shiftMs_def or_else_def truthy_string_def)
  have me: "\<forall>opts e. (None :: trace_to_metrics_options option) = Some opts \<longrightarrow>
               shiftMs ?env (metrics_spanStartTimeShift opts) \<noteq> Throw e
             \<and> shiftMs ?env (metrics_spanEndTimeShift opts) \<noteq> Throw e"
    by simp
  have r: "filter (\<lambda>r. refType r \<noteq> ''CHILD_OF'') (or_else (references ?sp) [])
             = [TraceSpanReference ''FOLLOWS_FROM'' None ''s7'' ''t2'']"
    by (simp add: or_else_def)
  from C10_subsidiary_links_unfiltered [OF c s lo me, of "\<lparr>logsDataSourceSettings =
            Some \<lparr>ds_type = ''loki'', ds_name = ''Loki'', ds_uid = ''loki1''\<rparr>,
          isSplunkDS = False, metricsDataSourceSettings = None\<rparr>" "[]"]
  obtain links tl where
    "fst (legacy_SpanLink
        \<lparr>getInstanceSettings = (\<lambda>uid. None),
          intervalToMs = (\<lambda>s. if s = ''1h'' then Inr 3600000
                              else Inl (Error ''Invalid interval string'')),
          mapInternalLinkToExplore = (\<lambda>a. \<lparr>lm_href = ''/explore'', lm_onClick = ()\<rparr>),
          getFieldLinksForExplore = (\<lambda>a. Inr [])\<rparr>
        \<lparr>logsDataSourceSettings =
            Some \<lparr>ds_type = ''loki'', ds_name = ''Loki'', ds_uid = ''loki1''\<rparr>,
          isSplunkDS = False, metricsDataSourceSettings = None\<rparr>
        (Some \<lparr>logs_datasourceUid = Some ''loki1'', logs_tags = None,
                logs_spanStartTimeShift = None, logs_spanEndTimeShift = Some ''1h'',
                filterByTraceID = None, filterBySpanID = None, logs_query = None,
                customQuery = False\<rparr>)
        None
        (Some (\<lambda>t s. \<lparr>lm_href = t @ ''/'' @ s, lm_onClick = ()\<rparr>)) []
        (TraceSpan ''s2'' ''t1'' ''op'' 1500 300
          [\<lparr>kv_key = ''pod'', kv_value = ''p1''\<rparr>]
          \<lparr>serviceName = ''svc'', process_tags = []\<rparr>
          (Some [TraceSpanReference ''CHILD_OF'' None ''s0'' ''t1'',
                 TraceSpanReference ''FOLLOWS_FROM'' None ''s7'' ''t2''])
          (Some [TraceSpanReference ''CHILD_OF'' None ''s9'' ''t3''])
          None)) = Normal links"
    and "traceLinks links = Some tl"
    and "length tl = 2"
    and "drop 1 tl = map (referenceLink ?f) [TraceSpanReference ''CHILD_OF'' None ''s9'' ''t3'']"
    unfolding r by auto
  then show ?thesis
    by (simp add: referenceLink_def)
qed

text \<open>
  Claim C5: the function of the structured mode never throws to its caller; when the
  field link resolver (and so any interpolation inside it) throws, the error is appended
  to the console and the function returns \<open>undefined\<close>. The factory returns this function
  when the data frame has other than one field and some field has links.
\<close>

theorem C5_structured_mode_swallows_errors:
  "(\<forall>e. fst (structured_SpanLink env df st sp) \<noteq> Throw e)
   \<and> (getFieldLinksForExplore env
         \<lparr>fl_field = find has_links (df_fields df), fl_rowIndex = dataFrameRowIndex sp,
          fl_range = getTimeRangeFromSpan sp default_timeShift False,
          fl_dataFrame = df,
          fl_vars = spread (st_scopedVars st) (scopedVarsFromSpan sp)\<rparr> = Inl error
       \<longrightarrow> fst (structured_SpanLink env df st sp) = Normal None
         \<and> st_console (snd (structured_SpanLink env df st sp)) = st_console st @ [error])
   \<and> (length (df_fields df) \<noteq> 1 \<and> list_ex has_links (df_fields df)
       \<longrightarrow> snd (createSpanLinkFactory env traceToLogsOptions traceToMetricsOptions (Some df)
                  createFocusSpanLink tr) = structured_SpanLink env df)"
  by (simp add: structured_SpanLink_def structured_try_def createSpanLinkFactory_def Let_def
      split: sum.splits list.splits completion.splits)

theorem C5_structured_mode_swallows_errors_witness:
  "length (df_fields \<lparr>df_fields = [\<lparr>field_name = ''traceID'', config_links = None\<rparr>,
                     \<lparr>field_name = ''spanID'', config_links =
                        Some [\<lparr>dl_title = ''logs'', dl_url = [],
                               dl_internal = \<lparr>il_datasourceUid = ''loki'',
                                 il_datasourceName = ''Loki'', il_query = LokiQuery ''{}'' []\<rparr>\<rparr>]\<rparr>]\<rparr>) \<noteq> 1
   \<and> list_ex has_links (df_fields \<lparr>df_fields = [\<lparr>field_name = ''traceID'', config_links = None\<rparr>,
                     \<lparr>field_name = ''spanID'', config_links =
                        Some [\<lparr>dl_title = ''logs'', dl_url = [],
                               dl_internal = \<lparr>il_datasourceUid = ''loki'',
                                 il_datasourceName = ''Loki'', il_query = LokiQuery ''{}'' []\<rparr>\<rparr>]\<rparr>]\<rparr>)
   \<and> fst (snd (createSpanLinkFactory
        \<lparr>getInstanceSettings = (\<lambda>uid. None), intervalToMs = (\<lambda>s. Inr 0),
        mapInternalLinkToExplore = (\<lambda>a. \<lparr>lm_href = ''/explore'', lm_onClick = ()\<rparr>),
        getFieldLinksForExplore = (\<lambda>a. Inl (Error ''bad interpolation''))\<rparr>
        None None
        (Some \<lparr>df_fields = [\<lparr>field_name = ''traceID'', config_links = None\<rparr>,
                     \<lparr>field_name = ''spanID'', config_links =
                        Some [\<lparr>dl_title = ''logs'', dl_url = [],
                               dl_internal = \<lparr>il_datasourceUid = ''loki'',
                                 il_datasourceName = ''Loki'', il_query = LokiQuery ''{}'' []\<rparr>\<rparr>]\<rparr>]\<rparr>)
        None \<lparr>trace_traceID = ''t1'', traceName = ''checkout'', trace_duration = 300\<rparr>)
        \<lparr>st_scopedVars = [], st_console = []\<rparr>
        (TraceSpan ''s1'' ''t1'' ''op'' 1500 300 []
          \<lparr>serviceName = ''svc'', process_tags = []\<rparr>
          (Some [TraceSpanReference ''CHILD_OF'' None ''s0'' ''t1'',
                 TraceSpanReference ''FOLLOWS_FROM'' None ''s7'' ''t2''])
          (Some [TraceSpanReference ''CHILD_OF'' None ''s9'' ''t3''])
          None))
     = Normal None
   \<and> st_console (snd (snd (createSpanLinkFactory
        \<lparr>getInstanceSettings = (\<lambda>uid. None), intervalToMs = (\<lambda>s. Inr 0),
        mapInternalLinkToExplore = (\<lambda>a. \<lparr>lm_href = ''/explore'', lm_onClick = ()\<rparr>),
        getFieldLinksForExplore = (\<lambda>a. Inl (Error ''bad interpolation''))\<rparr>
        None None
        (Some \<lparr>df_fields = [\<lparr>field_name = ''traceID'', config_links = None\<rparr>,
                     \<lparr>field_name = ''spanID'', config_links =
                        Some [\<lparr>dl_title = ''logs'', dl_url = [],
                               dl_internal = \<lparr>il_datasourceUid = ''loki'',
                                 il_datasourceName = ''Loki'', il_query = LokiQuery ''{}'' []\<rparr>\<rparr>]\<rparr>]\<rparr>)
        None \<lparr>trace_traceID = ''t1'', traceName = ''checkout'', trace_duration = 300\<rparr>)
        \<lparr>st_scopedVars = [], st_console = []\<rparr>
        (TraceSpan ''s1'' ''t1'' ''op'' 1500 300 []
          \<lparr>serviceName = ''svc'', process_tags = []\<rparr>
          (Some [TraceSpanReference ''CHILD_OF'' None ''s0'' ''t1'',
                 TraceSpanReference ''FOLLOWS_FROM'' None ''s7'' ''t2''])
          (Some [TraceSpanReference ''CHILD_OF'' None ''s9'' ''t3''])
          None)))
     = [Error ''bad interpolation'']"
  using C5_structured_mode_swallows_errors
    [of "\<lparr>getInstanceSettings = (\<lambda>uid. None), intervalToMs = (\<lambda>s. Inr 0),
        mapInternalLinkToExplore = (\<lambda>a. \<lparr>lm_href = ''/explore'', lm_onClick = ()\<rparr>),
        getFieldLinksForExplore = (\<lambda>a. Inl (Error ''bad interpolation''))\<rparr>"
        "\<lparr>df_fields = [\<lparr>field_name = ''traceID'', config_links = None\<rparr>,
                     \<lparr>field_name = ''spanID'', config_links =
                        Some [\<lparr>dl_title = ''logs'', dl_url = [],
                               dl_internal = \<lparr>il_datasourceUid = ''loki'',
                                 il_datasourceName = ''Loki'', il_query = LokiQuery ''{}'' []\<rparr>\<rparr>]\<rparr>]\<rparr>"
        "\<lparr>st_scopedVars = [], st_console = []\<rparr>"
        "(TraceSpan ''s1'' ''t1'' ''op'' 1500 300 []
          \<lparr>serviceName = ''svc'', process_tags = []\<rparr>
          (Some [TraceSpanReference ''CHILD_OF'' None ''s0'' ''t1'',
                 TraceSpanReference ''FOLLOWS_FROM'' None ''s7'' ''t2''])
          (Some [TraceSpanReference ''CHILD_OF'' None ''s9'' ''t3''])
          None)"
        "Error ''bad interpolation''" None None None "\<lparr>trace_traceID = ''t1'', traceName = ''checkout'', trace_duration = 300\<rparr>"]
  by (simp add: has_links_def)

section \<open>Properties of the state history stub\<close>

text \<open>
  Claim C8: recording any list of transitions returns with the backend as it was, and
  there is no error result to return; a query, whatever the filter, returns a frame that
  is not nil and has zero rows, together with a nil error.
\<close>

theorem C8_stub_records_nothing_and_returns_empty_frame:
  "RecordStatesAsync h ctx rule transitions = h
   \<and> fst (QueryStates h ctx query) = Some (NewFrame ''states'' [])
   \<and> fst (QueryStates h ctx query) \<noteq> None
   \<and> Rows (NewFrame ''states'' []) = 0
   \<and> snd (QueryStates h ctx query) = None"
  by (simp add: RecordStatesAsync_def QueryStates_def NewFrame_def Rows_def)

end
